theory Spec2Isabelle
  imports Main
begin

section \<open>Errors\<close>

text \<open>
  A Go \<^verbatim>\<open>error\<close> value. \<open>ErrorsNew msg\<close> is \<^verbatim>\<open>errors.New(msg)\<close> as written in the
  source; the other constructors are the errors handed back by the libraries and
  collaborators the source calls (\<^verbatim>\<open>Pc.ReadFile\<close>, \<^verbatim>\<open>Pc.WriteFile\<close>, \<^verbatim>\<open>yaml.Unmarshal\<close>,
  \<^verbatim>\<open>flag.FlagSet.Parse\<close>, and the service layer). A function returning \<^verbatim>\<open>error\<close> returns
  \<open>error option\<close> (\<open>None\<close> is \<^verbatim>\<open>nil\<close>); a function returning \<^verbatim>\<open>(T, error)\<close> returns
  \<open>error + T\<close>.
\<close>

datatype error =
    ErrorsNew string
  | ReadFileError string
  | WriteFileError string
  | UnmarshalError
  | FlagError string
  | ErrHelp
  | CollabError string

section \<open>Data handed to the service layer\<close>

text \<open>
  \<^verbatim>\<open>ModuleConfig\<close> with the two fields the commands read, and the parameters of
  \<^verbatim>\<open>svc.Exec\<close> (\<^verbatim>\<open>SvcExecParams\<close>, which embeds \<^verbatim>\<open>SvcComposeParams\<close> and
  \<^verbatim>\<open>SvcStartParams\<close>).
\<close>

record ModuleConfig =
  HostedIn :: string
  ExecPath :: string

record SvcExecParams =
  SvcName :: string
  Cmd :: "string list"
  Mode :: string
  Force :: bool
  UID :: int
  WorkingDir :: string

text \<open>The handle \<^verbatim>\<open>*Service\<close> that \<^verbatim>\<open>CreateFromSvcName\<close> returns.\<close>

datatype Service = Service string

text \<open>The calls a command makes on service handles, in order.\<close>

datatype call =
    StopCall Service
  | DestroyCall Service
  | ExecCall Service SvcExecParams

section \<open>The home configuration (\<^verbatim>\<open>HomeConfig\<close>)\<close>

record HomeConfigItem =
  Name :: string
  Path :: string

text \<open>
  \<^verbatim>\<open>HomeConfig\<close>: the field \<^verbatim>\<open>Path\<close> (tagged \<^verbatim>\<open>yaml:"-"\<close>) is called \<open>hcPath\<close> here, since
  \<open>Path\<close> already names the field of \<^verbatim>\<open>HomeConfigItem\<close>.
\<close>

record HomeConfig =
  hcPath :: string
  CurrentWorkspace :: string
  UpdateCommand :: string
  Workspaces :: "HomeConfigItem list"

definition defaultUpdateCommand :: string where
  "defaultUpdateCommand =
     ''curl -sSL https://raw.githubusercontent.com/MadridianFox/ensi-local-ctl/master/get.sh | sudo bash''"

subsection \<open>Files and their contents\<close>

text \<open>
  The three serialised fields of a \<^verbatim>\<open>HomeConfig\<close>, under their YAML keys.
\<close>

record Document =
  current_workspace :: string
  update_command :: string
  workspaces :: "HomeConfigItem list"

text \<open>
  The bytes of a file: either the YAML text of a document, or bytes that
  \<^verbatim>\<open>yaml.Unmarshal\<close> rejects.
\<close>

datatype bytes = Yaml Document | NotYaml

text \<open>
  The part of the machine the commands act on. \<open>files\<close> maps a path to the contents of the
  file there; \<open>wlog\<close> lists the writes performed so far, in order; \<open>faults\<close> scripts the
  outcome of the coming calls of \<^verbatim>\<open>Pc.WriteFile\<close> (\<open>True\<close>: the call fails; calls beyond the
  end of the script succeed); \<open>stdout\<close> is what \<^verbatim>\<open>Pc.Printf\<close> has printed; \<open>calls\<close> lists
  the calls made on service handles so far.
\<close>

record world =
  files :: "string \<rightharpoonup> bytes"
  wlog :: "(string \<times> bytes) list"
  faults :: "bool list"
  stdout :: "string list"
  calls :: "call list"

definition FileExists :: "string \<Rightarrow> world \<Rightarrow> bool" where
  "FileExists p w = (files w p \<noteq> None)"

definition ReadFile :: "string \<Rightarrow> world \<Rightarrow> error + bytes" where
  "ReadFile p w = (case files w p of None \<Rightarrow> Inl (ReadFileError p) | Some b \<Rightarrow> Inr b)"

definition WriteFile :: "string \<Rightarrow> bytes \<Rightarrow> world \<Rightarrow> error option \<times> world" where
  "WriteFile p b w =
     (case faults w of
        True # fs \<Rightarrow> (Some (WriteFileError p), w\<lparr>faults := fs\<rparr>)
      | False # fs \<Rightarrow>
          (None, w\<lparr>files := (files w)(p \<mapsto> b), wlog := wlog w @ [(p, b)], faults := fs\<rparr>)
      | [] \<Rightarrow> (None, w\<lparr>files := (files w)(p \<mapsto> b), wlog := wlog w @ [(p, b)]\<rparr>))"

definition Printf :: "string \<Rightarrow> world \<Rightarrow> world" where
  "Printf s w = w\<lparr>stdout := stdout w @ [s]\<rparr>"

text \<open>
  \<^verbatim>\<open>yaml.Marshal\<close> and \<^verbatim>\<open>yaml.Unmarshal\<close> on a \<^verbatim>\<open>HomeConfig\<close>: the field \<^verbatim>\<open>Path\<close> is not
  serialised, the other three are.
\<close>

definition Marshal :: "HomeConfig \<Rightarrow> bytes" where
  "Marshal hc =
     Yaml \<lparr>current_workspace = CurrentWorkspace hc,
           update_command = UpdateCommand hc,
           workspaces = Workspaces hc\<rparr>"

definition Unmarshal :: "bytes \<Rightarrow> error + HomeConfig" where
  "Unmarshal b =
     (case b of
        NotYaml \<Rightarrow> Inl UnmarshalError
      | Yaml d \<Rightarrow>
          Inr \<lparr>hcPath = [],
               CurrentWorkspace = current_workspace d,
               UpdateCommand = update_command d,
               Workspaces = workspaces d\<rparr>)"

subsection \<open>Loading, saving, initialising\<close>

definition LoadHomeConfig :: "string \<Rightarrow> world \<Rightarrow> error + HomeConfig" where
  "LoadHomeConfig configPath w =
     (case ReadFile configPath w of
        Inl err \<Rightarrow> Inl err
      | Inr yamlFile \<Rightarrow>
          (case Unmarshal yamlFile of
             Inl err \<Rightarrow> Inl err
           | Inr cfg \<Rightarrow> Inr (cfg\<lparr>hcPath := configPath\<rparr>)))"

definition SaveHomeConfig :: "HomeConfig \<Rightarrow> world \<Rightarrow> error option \<times> world" where
  "SaveHomeConfig homeConfig w = WriteFile (hcPath homeConfig) (Marshal homeConfig) w"

definition defaultHomeConfig :: "string \<Rightarrow> HomeConfig" where
  "defaultHomeConfig configPath =
     \<lparr>hcPath = configPath, CurrentWorkspace = [],
      UpdateCommand = defaultUpdateCommand, Workspaces = []\<rparr>"

definition CheckHomeConfigIsEmpty :: "string \<Rightarrow> world \<Rightarrow> error option \<times> world" where
  "CheckHomeConfigIsEmpty configPath w =
     (if FileExists configPath w then (None, w)
      else SaveHomeConfig (defaultHomeConfig configPath) w)"

subsection \<open>Methods of \<^verbatim>\<open>HomeConfig\<close>\<close>

text \<open>
  \<^verbatim>\<open>AddWorkspace\<close> mutates the receiver and saves it: the model returns the error of the
  save, the updated receiver and the new world.
\<close>

definition AddWorkspace ::
  "HomeConfig \<Rightarrow> string \<Rightarrow> string \<Rightarrow> world \<Rightarrow> error option \<times> HomeConfig \<times> world" where
  "AddWorkspace hc name path w =
     (let hc' = hc\<lparr>Workspaces := Workspaces hc @ [\<lparr>Name = name, Path = path\<rparr>]\<rparr>;
          (err, w') = SaveHomeConfig hc' w
      in (err, hc', w'))"

text \<open>The loop of \<^verbatim>\<open>GetCurrentWsPath\<close> over \<^verbatim>\<open>hc.Workspaces\<close>.\<close>

primrec GetCurrentWsPath_loop :: "string \<Rightarrow> HomeConfigItem list \<Rightarrow> error + string" where
  "GetCurrentWsPath_loop cur [] = Inl (ErrorsNew ''current workspace is bad'')"
| "GetCurrentWsPath_loop cur (hci # rest) =
     (if Name hci = cur then Inr (Path hci) else GetCurrentWsPath_loop cur rest)"

definition GetCurrentWsPath :: "HomeConfig \<Rightarrow> error + string" where
  "GetCurrentWsPath hc =
     (if CurrentWorkspace hc = [] then Inl (ErrorsNew ''current workspace is not set'')
      else GetCurrentWsPath_loop (CurrentWorkspace hc) (Workspaces hc))"

text \<open>The loop of \<^verbatim>\<open>findWorkspace\<close>; \<open>None\<close> is the \<^verbatim>\<open>nil\<close> pointer.\<close>

primrec findWorkspace_loop :: "string \<Rightarrow> HomeConfigItem list \<Rightarrow> HomeConfigItem option" where
  "findWorkspace_loop name [] = None"
| "findWorkspace_loop name (workspace # rest) =
     (if Name workspace = name then Some workspace else findWorkspace_loop name rest)"

definition findWorkspace :: "HomeConfig \<Rightarrow> string \<Rightarrow> HomeConfigItem option" where
  "findWorkspace hc name = findWorkspace_loop name (Workspaces hc)"

text \<open>The two errors of \<^verbatim>\<open>GetCurrentWsPath\<close>, under the names the specification gives them.\<close>

definition NotConfiguredError :: error where
  "NotConfiguredError = ErrorsNew ''current workspace is not set''"

definition CorruptStateError :: error where
  "CorruptStateError = ErrorsNew ''current workspace is bad''"

section \<open>Collaborators outside the source under study\<close>

text \<open>
  The workspace manifest \<^verbatim>\<open>MainConfig\<close>. The commands only call its methods, whose bodies
  are not part of the source under study, so a manifest is given by what each of these
  methods returns on it.
\<close>

record MainConfig =
  FindServiceByPath :: "error + string"
  FindModuleByPath :: "error + ModuleConfig"
  FindModuleByName :: "string \<Rightarrow> error + ModuleConfig"
  renderPath :: "string \<Rightarrow> error + string"
  GetAllSvcNames :: "string list"

text \<open>
  The remaining functions the commands call and the source under study does not define.
  \<open>NeedHelp\<close> takes the arguments and the usage line (its description lines only feed the
  help text); \<open>LoadFromFile wsPath cwd\<close> is \<^verbatim>\<open>NewConfig(wsPath, cwd)\<close> followed by
  \<^verbatim>\<open>cfg.LoadFromFile()\<close>; \<open>ParseInt\<close> is the parser of an integer flag value. The outcome
  of a call on a service handle may depend on the calls made before it.
\<close>

record env =
  NeedHelp :: "string list \<Rightarrow> string \<Rightarrow> bool"
  Getuid :: int
  ParseInt :: "string \<Rightarrow> int option"
  Getwd :: "error + string"
  LoadFromFile :: "string \<Rightarrow> string \<Rightarrow> error + MainConfig"
  checkVersion :: "MainConfig \<Rightarrow> error option"
  CreateFromSvcName :: "MainConfig \<Rightarrow> string \<Rightarrow> error + Service"
  Stop :: "call list \<Rightarrow> Service \<Rightarrow> error option"
  Destroy :: "call list \<Rightarrow> Service \<Rightarrow> error option"
  Exec :: "call list \<Rightarrow> Service \<Rightarrow> SvcExecParams \<Rightarrow> error + int"

section \<open>The workspace commands\<close>

definition checkAndLoadHC :: "string \<Rightarrow> world \<Rightarrow> (error + HomeConfig) \<times> world" where
  "checkAndLoadHC homeConfigPath w =
     (case CheckHomeConfigIsEmpty homeConfigPath w of
        (Some err, w') \<Rightarrow> (Inl err, w')
      | (None, w') \<Rightarrow> (LoadHomeConfig homeConfigPath w', w'))"

definition quoted :: "string \<Rightarrow> string" where
  "quoted s = [CHR 0x27] @ s @ [CHR 0x27]"

definition CmdWorkspaceAdd :: "env \<Rightarrow> string \<Rightarrow> string list \<Rightarrow> world \<Rightarrow> error option \<times> world" where
  "CmdWorkspaceAdd env homeConfigPath args w =
     (if NeedHelp env args ''workspace add NAME PATH'' then (None, w)
      else
        (case checkAndLoadHC homeConfigPath w of
           (Inl err, w1) \<Rightarrow> (Some err, w1)
         | (Inr hc, w1) \<Rightarrow>
             (if length args \<noteq> 2
              then (Some (ErrorsNew ''command requires exactly 2 arguments''), w1)
              else
                (let name = args ! 0; wsPath = args ! 1 in
                 (case findWorkspace hc name of
                    Some ws \<Rightarrow>
                      (Some (ErrorsNew (''workspace with name '' @ quoted name @ '' already exists'')), w1)
                  | None \<Rightarrow>
                      (case AddWorkspace hc name wsPath w1 of
                         (Some err, hc2, w2) \<Rightarrow> (Some err, w2)
                       | (None, hc2, w2) \<Rightarrow>
                           (let w3 = Printf (''workspace '' @ quoted name @ '' is added'' @ [CHR 0x0A]) w2 in
                            if CurrentWorkspace hc2 = [] then
                              (case SaveHomeConfig (hc2\<lparr>CurrentWorkspace := name\<rparr>) w3 of
                                 (Some err, w4) \<Rightarrow> (Some err, w4)
                               | (None, w4) \<Rightarrow>
                                   (None, Printf (''active workspace changed to '' @ quoted name @ [CHR 0x0A]) w4))
                            else (None, w3))))))))"

definition CmdWorkspaceSelect :: "env \<Rightarrow> string \<Rightarrow> string list \<Rightarrow> world \<Rightarrow> error option \<times> world" where
  "CmdWorkspaceSelect env homeConfigPath args w =
     (if NeedHelp env args ''workspace select NAME'' then (None, w)
      else
        (case checkAndLoadHC homeConfigPath w of
           (Inl err, w1) \<Rightarrow> (Some err, w1)
         | (Inr hc, w1) \<Rightarrow>
             (if length args \<noteq> 1
              then (Some (ErrorsNew ''command requires exactly 1 argument''), w1)
              else
                (let name = args ! 0 in
                 (case findWorkspace hc name of
                    None \<Rightarrow>
                      (Some (ErrorsNew (''workspace with name '' @ quoted name @ '' is not defined'')), w1)
                  | Some ws \<Rightarrow>
                      (case SaveHomeConfig (hc\<lparr>CurrentWorkspace := name\<rparr>) w1 of
                         (Some err, w2) \<Rightarrow> (Some err, w2)
                       | (None, w2) \<Rightarrow>
                           (None, Printf (''active workspace changed to '' @ quoted name @ [CHR 0x0A]) w2)))))))"

text \<open>Whether the next call of \<^verbatim>\<open>Pc.WriteFile\<close> is scripted to fail.\<close>

definition write_fails :: "world \<Rightarrow> bool" where
  "write_fails w = (case faults w of True # fs \<Rightarrow> True | _ \<Rightarrow> False)"

text \<open>The document \<^verbatim>\<open>CheckHomeConfigIsEmpty\<close> writes when there is none.\<close>

definition defaultDocument :: Document where
  "defaultDocument =
     \<lparr>current_workspace = [], update_command = defaultUpdateCommand, workspaces = []\<rparr>"

section \<open>Command-line flags (Go's \<^verbatim>\<open>flag\<close> package)\<close>

text \<open>
  The service commands parse their arguments with \<^verbatim>\<open>flag.NewFlagSet(_, flag.ContinueOnError)\<close>.
  A flag set is the list of the defined flags with their current values; the constructor of
  a value tells the kind of the flag.
\<close>

datatype flag_value = BoolValue bool | StringValue string | IntValue int

type_synonym FlagSet = "(string \<times> flag_value) list"

text \<open>\<^verbatim>\<open>strconv.ParseBool\<close>, which sets a boolean flag written \<^verbatim>\<open>-name=value\<close>.\<close>

definition ParseBool :: "string \<Rightarrow> bool option" where
  "ParseBool str =
     (if str \<in> set [''1'', ''t'', ''T'', ''TRUE'', ''true'', ''True''] then Some True
      else if str \<in> set [''0'', ''f'', ''F'', ''FALSE'', ''false'', ''False''] then Some False
      else None)"

text \<open>\<^verbatim>\<open>flag.Value.Set\<close>: \<open>None\<close> when the text is not a value of the flag's kind.\<close>

definition flag_Set :: "(string \<Rightarrow> int option) \<Rightarrow> flag_value \<Rightarrow> string \<Rightarrow> flag_value option" where
  "flag_Set pint fv str =
     (case fv of
        BoolValue b \<Rightarrow> map_option BoolValue (ParseBool str)
      | StringValue s \<Rightarrow> Some (StringValue str)
      | IntValue i \<Rightarrow> map_option IntValue (pint str))"

definition flag_store :: "string \<Rightarrow> flag_value \<Rightarrow> FlagSet \<Rightarrow> FlagSet" where
  "flag_store name fv fs = map (\<lambda>(k, v). if k = name then (k, fv) else (k, v)) fs"

text \<open>
  The text after the dashes is split at the first \<^verbatim>\<open>=\<close> that is not its first character.
\<close>

fun split_name :: "string \<Rightarrow> string \<times> string option" where
  "split_name [] = ([], None)"
| "split_name (c # cs) =
     (if CHR ''='' \<in> set cs
      then (c # takeWhile (\<lambda>x. x \<noteq> CHR ''='') cs, Some (tl (dropWhile (\<lambda>x. x \<noteq> CHR ''='') cs)))
      else (c # cs, None))"

text \<open>
  \<^verbatim>\<open>FlagSet.Parse\<close>: flags are read up to the first argument that is not a flag or up to
  \<^verbatim>\<open>--\<close>, which is dropped; the result is the flag set and the remaining arguments
  (\<^verbatim>\<open>fs.Args()\<close>).
\<close>

fun Parse :: "(string \<Rightarrow> int option) \<Rightarrow> FlagSet \<Rightarrow> string list \<Rightarrow> error + FlagSet \<times> string list" where
  "Parse pint fs [] = Inr (fs, [])"
| "Parse pint fs (s # rest) =
     (if length s < 2 \<or> hd s \<noteq> CHR ''-'' then Inr (fs, s # rest)
      else if s = ''--'' then Inr (fs, rest)
      else
        (let name0 = (if s ! 1 = CHR ''-'' then drop 2 s else drop 1 s) in
         if name0 = [] \<or> hd name0 = CHR ''-'' \<or> hd name0 = CHR ''=''
         then Inl (FlagError (''bad flag syntax: '' @ s))
         else
           (case split_name name0 of
              (name, val) \<Rightarrow>
                (case map_of fs name of
                   None \<Rightarrow>
                     if name = ''help'' \<or> name = ''h'' then Inl ErrHelp
                     else Inl (FlagError (''flag provided but not defined: -'' @ name))
                 | Some (BoolValue b) \<Rightarrow>
                     (case val of
                        Some v \<Rightarrow>
                          (case ParseBool v of
                             None \<Rightarrow> Inl (FlagError (''invalid boolean value for -'' @ name))
                           | Some b' \<Rightarrow> Parse pint (flag_store name (BoolValue b') fs) rest)
                      | None \<Rightarrow> Parse pint (flag_store name (BoolValue True) fs) rest)
                 | Some fv \<Rightarrow>
                     (case val of
                        Some v \<Rightarrow>
                          (case flag_Set pint fv v of
                             None \<Rightarrow> Inl (FlagError (''invalid value for flag -'' @ name))
                           | Some fv' \<Rightarrow> Parse pint (flag_store name fv' fs) rest)
                      | None \<Rightarrow>
                          (case rest of
                             [] \<Rightarrow> Inl (FlagError (''flag needs an argument: -'' @ name))
                           | v # rest' \<Rightarrow>
                               (case flag_Set pint fv v of
                                  None \<Rightarrow> Inl (FlagError (''invalid value for flag -'' @ name))
                                | Some fv' \<Rightarrow> Parse pint (flag_store name fv' fs) rest')))))))"

definition flag_bool :: "FlagSet \<Rightarrow> string \<Rightarrow> bool" where
  "flag_bool fs name = (case map_of fs name of Some (BoolValue b) \<Rightarrow> b | _ \<Rightarrow> False)"

definition flag_string :: "FlagSet \<Rightarrow> string \<Rightarrow> string" where
  "flag_string fs name = (case map_of fs name of Some (StringValue s) \<Rightarrow> s | _ \<Rightarrow> [])"

definition flag_int :: "FlagSet \<Rightarrow> string \<Rightarrow> int" where
  "flag_int fs name = (case map_of fs name of Some (IntValue i) \<Rightarrow> i | _ \<Rightarrow> 0)"

section \<open>The service commands\<close>

definition getWorkspaceConfig :: "env \<Rightarrow> string \<Rightarrow> world \<Rightarrow> (error + MainConfig) \<times> world" where
  "getWorkspaceConfig env homeConfigPath w =
     (case checkAndLoadHC homeConfigPath w of
        (Inl err, w1) \<Rightarrow> (Inl err, w1)
      | (Inr hc, w1) \<Rightarrow>
          (case GetCurrentWsPath hc of
             Inl err \<Rightarrow> (Inl err, w1)
           | Inr wsPath \<Rightarrow>
               (case Getwd env of
                  Inl err \<Rightarrow> (Inl err, w1)
                | Inr cwd \<Rightarrow>
                    (case LoadFromFile env wsPath cwd of
                       Inl err \<Rightarrow> (Inl err, w1)
                     | Inr cfg \<Rightarrow>
                         (case checkVersion env cfg of
                            Some err \<Rightarrow> (Inl err, w1)
                          | None \<Rightarrow> (Inr cfg, w1))))))"

text \<open>A call on a service handle is recorded in the world; the environment gives its outcome.\<close>

definition svc_Stop :: "env \<Rightarrow> Service \<Rightarrow> world \<Rightarrow> error option \<times> world" where
  "svc_Stop env svc w = (Stop env (calls w) svc, w\<lparr>calls := calls w @ [StopCall svc]\<rparr>)"

definition svc_Destroy :: "env \<Rightarrow> Service \<Rightarrow> world \<Rightarrow> error option \<times> world" where
  "svc_Destroy env svc w = (Destroy env (calls w) svc, w\<lparr>calls := calls w @ [DestroyCall svc]\<rparr>)"

definition svc_Exec :: "env \<Rightarrow> Service \<Rightarrow> SvcExecParams \<Rightarrow> world \<Rightarrow> (error + int) \<times> world" where
  "svc_Exec env svc params w =
     (Exec env (calls w) svc params, w\<lparr>calls := calls w @ [ExecCall svc params]\<rparr>)"

subsection \<open>\<^verbatim>\<open>stop\<close> and \<^verbatim>\<open>destroy\<close>\<close>

text \<open>The loop \<^verbatim>\<open>for _, svcName := range svcNames\<close> of \<^verbatim>\<open>CmdServiceStop\<close>.\<close>

primrec CmdServiceStop_loop :: "env \<Rightarrow> MainConfig \<Rightarrow> string list \<Rightarrow> world \<Rightarrow> error option \<times> world" where
  "CmdServiceStop_loop env cfg [] w = (None, w)"
| "CmdServiceStop_loop env cfg (svcName # rest) w =
     (case CreateFromSvcName env cfg svcName of
        Inl err \<Rightarrow> (Some err, w)
      | Inr svc \<Rightarrow>
          (case svc_Stop env svc w of
             (Some err, w') \<Rightarrow> (Some err, w')
           | (None, w') \<Rightarrow> CmdServiceStop_loop env cfg rest w'))"

definition stopFlags :: FlagSet where
  "stopFlags = [(''all'', BoolValue False)]"

definition CmdServiceStop :: "env \<Rightarrow> string \<Rightarrow> string list \<Rightarrow> world \<Rightarrow> error option \<times> world" where
  "CmdServiceStop env homeConfigPath args w =
     (if NeedHelp env args ''stop [NAMES...]'' then (None, w)
      else
        (case getWorkspaceConfig env homeConfigPath w of
           (Inl err, w1) \<Rightarrow> (Some err, w1)
         | (Inr cfg, w1) \<Rightarrow>
             (case Parse (ParseInt env) stopFlags args of
                Inl err \<Rightarrow> (Some err, w1)
              | Inr (fs, rest) \<Rightarrow>
                  (let svcNames = (if flag_bool fs ''all'' then GetAllSvcNames cfg else args) in
                   if length svcNames > 0 then CmdServiceStop_loop env cfg svcNames w1
                   else
                     (case FindServiceByPath cfg of
                        Inl err \<Rightarrow> (Some err, w1)
                      | Inr svcName \<Rightarrow>
                          (case CreateFromSvcName env cfg svcName of
                             Inl err \<Rightarrow> (Some err, w1)
                           | Inr svc \<Rightarrow> svc_Stop env svc w1))))))"

text \<open>The loop of \<^verbatim>\<open>CmdServiceDestroy\<close>.\<close>

primrec CmdServiceDestroy_loop :: "env \<Rightarrow> MainConfig \<Rightarrow> string list \<Rightarrow> world \<Rightarrow> error option \<times> world" where
  "CmdServiceDestroy_loop env cfg [] w = (None, w)"
| "CmdServiceDestroy_loop env cfg (svcName # rest) w =
     (case CreateFromSvcName env cfg svcName of
        Inl err \<Rightarrow> (Some err, w)
      | Inr svc \<Rightarrow>
          (case svc_Destroy env svc w of
             (Some err, w') \<Rightarrow> (Some err, w')
           | (None, w') \<Rightarrow> CmdServiceDestroy_loop env cfg rest w'))"

definition CmdServiceDestroy :: "env \<Rightarrow> string \<Rightarrow> string list \<Rightarrow> world \<Rightarrow> error option \<times> world" where
  "CmdServiceDestroy env homeConfigPath args w =
     (if NeedHelp env args ''destroy [NAMES...]'' then (None, w)
      else
        (case getWorkspaceConfig env homeConfigPath w of
           (Inl err, w1) \<Rightarrow> (Some err, w1)
         | (Inr cfg, w1) \<Rightarrow>
             (case Parse (ParseInt env) stopFlags args of
                Inl err \<Rightarrow> (Some err, w1)
              | Inr (fs, rest) \<Rightarrow>
                  (let svcNames = (if flag_bool fs ''all'' then GetAllSvcNames cfg else args) in
                   if length svcNames > 0 then CmdServiceDestroy_loop env cfg svcNames w1
                   else
                     (case FindServiceByPath cfg of
                        Inl err \<Rightarrow> (Some err, w1)
                      | Inr svcName \<Rightarrow>
                          (case CreateFromSvcName env cfg svcName of
                             Inl err \<Rightarrow> (Some err, w1)
                           | Inr svc \<Rightarrow> svc_Destroy env svc w1))))))"

subsection \<open>\<^verbatim>\<open>exec\<close>\<close>

text \<open>
  The flags of \<^verbatim>\<open>exec\<close>, as \<^verbatim>\<open>addComposeFlags\<close>, \<^verbatim>\<open>addStartFlags\<close> and \<^verbatim>\<open>addExecFlags\<close> define
  them, with their default values.
\<close>

definition execFlags :: "env \<Rightarrow> FlagSet" where
  "execFlags env =
     [(''svc'', StringValue []),
      (''mode'', StringValue ''default''),
      (''force'', BoolValue False),
      (''uid'', IntValue (Getuid env))]"

text \<open>
  The choice of the target in \<^verbatim>\<open>CmdServiceExec\<close> (the statement \<^verbatim>\<open>var mdl *ModuleConfig\<close> and
  the \<^verbatim>\<open>if\<close> that follows it). The result is the value of the variable \<^verbatim>\<open>mdl\<close> declared before
  the \<^verbatim>\<open>if\<close> (\<open>None\<close> is \<^verbatim>\<open>nil\<close>) and the updated parameters. In the first branch
  \<^verbatim>\<open>mdl, err = cfg.FindModuleByPath()\<close> assigns that variable (a module, or \<^verbatim>\<open>nil\<close> with an
  error). In the \<^verbatim>\<open>else\<close> branch
  \<^verbatim>\<open>mdl, err := cfg.FindModuleByName(...)\<close> declares a new \<^verbatim>\<open>mdl\<close>, local to the branch: the
  outer one keeps its initial \<^verbatim>\<open>nil\<close>.
\<close>

definition CmdServiceExec_resolve ::
  "MainConfig \<Rightarrow> SvcExecParams \<Rightarrow> error + ModuleConfig option \<times> SvcExecParams" where
  "CmdServiceExec_resolve cfg execParams =
     (if SvcName execParams = [] then
        (case FindModuleByPath cfg of
           Inr mdl \<Rightarrow> Inr (Some mdl, execParams\<lparr>SvcName := HostedIn mdl\<rparr>)
         | Inl err \<Rightarrow>
             (case FindServiceByPath cfg of
                Inl err' \<Rightarrow> Inl err'
              | Inr svcName \<Rightarrow> Inr (None, execParams\<lparr>SvcName := svcName\<rparr>)))
      else
        (case FindModuleByName cfg (SvcName execParams) of
           Inr mdl' \<Rightarrow> Inr (None, execParams\<lparr>SvcName := HostedIn mdl'\<rparr>)
         | Inl err \<Rightarrow> Inr (None, execParams)))"

definition CmdServiceExec :: "env \<Rightarrow> string \<Rightarrow> string list \<Rightarrow> world \<Rightarrow> (error + int) \<times> world" where
  "CmdServiceExec env homeConfigPath args w =
     (if NeedHelp env args ''[OPTIONS] COMMAND [ARGS]'' then (Inr 0, w)
      else
        (case Parse (ParseInt env) (execFlags env) args of
           Inl err \<Rightarrow> (Inl err, w)
         | Inr (fs, rest) \<Rightarrow>
             (let execParams =
                    \<lparr>SvcName = flag_string fs ''svc'', Cmd = rest,
                     Mode = flag_string fs ''mode'', Force = flag_bool fs ''force'',
                     UID = flag_int fs ''uid'', WorkingDir = []\<rparr>
              in
                (case getWorkspaceConfig env homeConfigPath w of
                   (Inl err, w1) \<Rightarrow> (Inl err, w1)
                 | (Inr cfg, w1) \<Rightarrow>
                     (case CmdServiceExec_resolve cfg execParams of
                        Inl err \<Rightarrow> (Inl err, w1)
                      | Inr (mdl, execParams1) \<Rightarrow>
                          (case
                             (case mdl of
                                None \<Rightarrow> Inr execParams1
                              | Some m \<Rightarrow>
                                  (case renderPath cfg (ExecPath m) of
                                     Inl err \<Rightarrow> Inl err
                                   | Inr dir \<Rightarrow> Inr (execParams1\<lparr>WorkingDir := dir\<rparr>)))
                           of
                             Inl err \<Rightarrow> (Inl err, w1)
                           | Inr execParams2 \<Rightarrow>
                               (case CreateFromSvcName env cfg (SvcName execParams2) of
                                  Inl err \<Rightarrow> (Inl err, w1)
                                | Inr svc \<Rightarrow> svc_Exec env svc execParams2 w1)))))))"

section \<open>The dependency planner\<close>

text \<open>
  Modelled from the spec: the dependency planner of \<^verbatim>\<open>start\<close> and \<^verbatim>\<open>restart\<close> (the methods
  \<^verbatim>\<open>Start\<close> and \<^verbatim>\<open>Restart\<close> of a service handle), which the source under study calls and does
  not define. The data are those of the specification's data model: a manifest maps a
  service name to its definition, whose \<^verbatim>\<open>dependsOn\<close> lists pairs of a name and a mode.
\<close>

record Dependency =
  depName :: string
  depMode :: string

record ServiceDef =
  svcPath :: string
  dependsOn :: "Dependency list"

type_synonym Manifest = "(string \<times> ServiceDef) list"

datatype plan_error = CyclicDependencyError "string list" | NotFoundError string

datatype action = Up

text \<open>
  Modelled from the spec: the name of the cycle found when the traversal meets \<open>n\<close> again
  while \<open>n\<close> is on the current path. The path holds the latest node first; the cycle is
  listed in the direction of the dependency edges, from \<open>n\<close> back to \<open>n\<close>.
\<close>

definition cycle_of :: "string list \<Rightarrow> string \<Rightarrow> string list" where
  "cycle_of path n = n # rev (takeWhile (\<lambda>x. x \<noteq> n) path) @ [n]"

text \<open>
  Modelled from the spec: the depth-first traversal of section 4.3. \<open>plan_visit\<close> visits a
  service with the current path: a service on the path is a cycle, an unknown name is a
  \<open>NotFoundError\<close>, otherwise the dependencies are planned first and the service is put
  after them. \<open>plan_deps\<close> goes through a \<^verbatim>\<open>dependsOn\<close> list in order: a dependency whose mode
  is not the requested one is skipped; unless \<open>force\<close> is set, so is one that the container
  engine reports running; the first failure ends the traversal.
\<close>

function plan_visit ::
    "Manifest \<Rightarrow> string \<Rightarrow> bool \<Rightarrow> (string \<Rightarrow> bool) \<Rightarrow> string list \<Rightarrow> string
       \<Rightarrow> plan_error + (string \<times> action) list"
  and plan_deps ::
    "Manifest \<Rightarrow> string \<Rightarrow> bool \<Rightarrow> (string \<Rightarrow> bool) \<Rightarrow> string list \<Rightarrow> Dependency list
       \<Rightarrow> plan_error + (string \<times> action) list"
where
  "plan_visit M mode force isRunning path n =
     (if n \<in> set path then Inl (CyclicDependencyError (cycle_of path n))
      else
        (case map_of M n of
           None \<Rightarrow> Inl (NotFoundError n)
         | Some sd \<Rightarrow>
             (case plan_deps M mode force isRunning (n # path) (dependsOn sd) of
                Inl e \<Rightarrow> Inl e
              | Inr p \<Rightarrow> Inr (p @ [(n, Up)]))))"
| "plan_deps M mode force isRunning path [] = Inr []"
| "plan_deps M mode force isRunning path (d # ds) =
     (if depMode d \<noteq> mode then plan_deps M mode force isRunning path ds
      else if \<not> force \<and> isRunning (depName d) then plan_deps M mode force isRunning path ds
      else
        (case plan_visit M mode force isRunning path (depName d) of
           Inl e \<Rightarrow> Inl e
         | Inr p1 \<Rightarrow>
             (case plan_deps M mode force isRunning path ds of
                Inl e \<Rightarrow> Inl e
              | Inr p2 \<Rightarrow> Inr (p1 @ p2))))"
  by pat_completeness auto

text \<open>
  Termination: a visit puts on the path a declared service that is not yet on it, so the
  declared services off the path become fewer; within one \<^verbatim>\<open>dependsOn\<close> list the rest of the
  list becomes shorter.
\<close>

termination
proof (relation
    "inv_image (less_than <*lex*> less_than)
       (\<lambda>x. case x of
          Inl (M, mode, force, isRunning, path, n) \<Rightarrow> (card (fst ` set M - set path), 0)
        | Inr (M, mode, force, isRunning, path, ds) \<Rightarrow> (card (fst ` set M - set path), Suc (length ds)))",
    goal_cases)
  case 1
  show ?case by (intro wf_inv_image wf_lex_prod wf_less_than)
next
  case (2 M mode force isRunning path n sd)
  from \<open>map_of M n = Some sd\<close> have "n \<in> fst ` set M"
    by (metis map_of_eq_None_iff option.distinct(1))
  with \<open>n \<notin> set path\<close> have "n \<in> fst ` set M - set path" by simp
  moreover have "finite (fst ` set M - set path)" by simp
  ultimately have "card ((fst ` set M - set path) - {n}) < card (fst ` set M - set path)"
    by (rule card_Diff1_less [rotated])
  moreover have "fst ` set M - set (n # path) = (fst ` set M - set path) - {n}" by auto
  ultimately have "card (fst ` set M - set (n # path)) < card (fst ` set M - set path)"
    by simp
  then show ?case by simp
qed simp_all

declare plan_visit.simps [simp del]

text \<open>Modelled from the spec: the plan for a target starts the traversal with an empty path.\<close>

definition plan :: "Manifest \<Rightarrow> string \<Rightarrow> bool \<Rightarrow> (string \<Rightarrow> bool) \<Rightarrow> string
    \<Rightarrow> plan_error + (string \<times> action) list" where
  "plan M mode force isRunning target = plan_visit M mode force isRunning [] target"

text \<open>
  The dependency edges a traversal for \<open>mode\<close> follows: from a declared service to each
  dependency of the requested mode that is not skipped as running.
\<close>

definition dep_succs :: "Manifest \<Rightarrow> string \<Rightarrow> bool \<Rightarrow> (string \<Rightarrow> bool) \<Rightarrow> string \<Rightarrow> string list" where
  "dep_succs M mode force isRunning a =
     (case map_of M a of
        None \<Rightarrow> []
      | Some sd \<Rightarrow>
          map depName
            (filter (\<lambda>d. depMode d = mode \<and> (force \<or> \<not> isRunning (depName d))) (dependsOn sd)))"

definition dep_edge :: "Manifest \<Rightarrow> string \<Rightarrow> bool \<Rightarrow> (string \<Rightarrow> bool) \<Rightarrow> string \<Rightarrow> string \<Rightarrow> bool" where
  "dep_edge M mode force isRunning a b = (b \<in> set (dep_succs M mode force isRunning a))"

text \<open>All dependency edges of the manifest, whatever their mode and the state of the services.\<close>

definition raw_edge :: "Manifest \<Rightarrow> string \<Rightarrow> string \<Rightarrow> bool" where
  "raw_edge M a b =
     (case map_of M a of None \<Rightarrow> False | Some sd \<Rightarrow> b \<in> depName ` set (dependsOn sd))"

text \<open>A cycle of a relation, listed from a node back to the same node.\<close>

definition is_cycle :: "(string \<Rightarrow> string \<Rightarrow> bool) \<Rightarrow> string list \<Rightarrow> bool" where
  "is_cycle E c = (2 \<le> length c \<and> hd c = last c \<and> successively E c)"

text \<open>
  The invariant of a manifest in the data model: every \<^verbatim>\<open>dependsOn\<close> entry names a declared
  service.
\<close>

definition wf_manifest :: "Manifest \<Rightarrow> bool" where
  "wf_manifest M =
     (\<forall>(name, sd) \<in> set M. \<forall>d \<in> set (dependsOn sd). depName d \<in> fst ` set M)"

section \<open>Example inputs\<close>

text \<open>
  A manifest with the services \<^verbatim>\<open>api\<close> and \<^verbatim>\<open>web\<close> and the module \<^verbatim>\<open>api-cli\<close>, hosted in
  \<^verbatim>\<open>api\<close> with the exec path \<^verbatim>\<open>/app/bin\<close>, seen from a working directory that lies
  both under the module and under the service \<^verbatim>\<open>web\<close>.
\<close>

definition cfg_example :: MainConfig where
  "cfg_example =
     \<lparr>FindServiceByPath = Inr ''web'',
      FindModuleByPath = Inr \<lparr>HostedIn = ''api'', ExecPath = ''/app/bin''\<rparr>,
      FindModuleByName =
        (\<lambda>name. if name = ''api-cli'' then Inr \<lparr>HostedIn = ''api'', ExecPath = ''/app/bin''\<rparr>
                else Inl (CollabError ''module not found'')),
      renderPath = (\<lambda>path. Inr path),
      GetAllSvcNames = [''api'', ''web'']\<rparr>"

text \<open>
  A manifest with the service \<^verbatim>\<open>web\<close> and no module, seen from a working directory under
  that service.
\<close>

definition cfg_plain :: MainConfig where
  "cfg_plain =
     \<lparr>FindServiceByPath = Inr ''web'',
      FindModuleByPath = Inl (CollabError ''module not found''),
      FindModuleByName = (\<lambda>name. Inl (CollabError ''module not found'')),
      renderPath = (\<lambda>path. Inr path),
      GetAllSvcNames = [''web'']\<rparr>"

text \<open>A manifest that declares no service and no module.\<close>

definition cfg_empty :: MainConfig where
  "cfg_empty =
     \<lparr>FindServiceByPath = Inl (CollabError ''service not found''),
      FindModuleByPath = Inl (CollabError ''module not found''),
      FindModuleByName = (\<lambda>name. Inl (CollabError ''module not found'')),
      renderPath = (\<lambda>path. Inr path),
      GetAllSvcNames = []\<rparr>"

text \<open>
  An environment in which the workspace at \<^verbatim>\<open>/src/shop\<close> has the manifest \<open>cfg_example\<close>,
  the one at \<^verbatim>\<open>/src/plain\<close> the manifest \<open>cfg_plain\<close>, every other workspace the manifest
  \<open>cfg_empty\<close>; a service handle exists for each service the manifest names, and every call
  on a handle succeeds.
\<close>

definition env_example :: env where
  "env_example =
     \<lparr>NeedHelp = (\<lambda>args usage. ''--help'' \<in> set args),
      Getuid = 1000,
      ParseInt = (\<lambda>s. None),
      Getwd = Inr ''/src/shop/web/modules/cli'',
      LoadFromFile =
        (\<lambda>wsPath cwd. if wsPath = ''/src/shop'' then Inr cfg_example
                       else if wsPath = ''/src/plain'' then Inr cfg_plain
                       else Inr cfg_empty),
      checkVersion = (\<lambda>cfg. None),
      CreateFromSvcName =
        (\<lambda>cfg name. if name \<in> set (GetAllSvcNames cfg) then Inr (Service name)
                     else Inl (CollabError ''service not found'')),
      Stop = (\<lambda>cs svc. None),
      Destroy = (\<lambda>cs svc. None),
      Exec = (\<lambda>cs svc params. Inr 0)\<rparr>"

text \<open>Worlds without a home configuration file, and with one at \<^verbatim>\<open>/h\<close> holding a document.\<close>

definition world_fresh :: world where
  "world_fresh = \<lparr>files = Map.empty, wlog = [], faults = [], stdout = [], calls = []\<rparr>"

definition world_with :: "Document \<Rightarrow> world" where
  "world_with d = \<lparr>files = [''/h'' \<mapsto> Yaml d], wlog = [], faults = [], stdout = [], calls = []\<rparr>"

definition doc_shop :: Document where
  "doc_shop =
     \<lparr>current_workspace = ''shop'', update_command = defaultUpdateCommand,
      workspaces = [\<lparr>Name = ''shop'', Path = ''/src/shop''\<rparr>]\<rparr>"

definition doc_plain :: Document where
  "doc_plain =
     \<lparr>current_workspace = ''plain'', update_command = defaultUpdateCommand,
      workspaces = [\<lparr>Name = ''plain'', Path = ''/src/plain''\<rparr>]\<rparr>"

text \<open>
  A document that registers no workspace and whose current workspace names one that is
  not registered.
\<close>

definition doc_ghost :: Document where
  "doc_ghost =
     \<lparr>current_workspace = ''ghost'', update_command = defaultUpdateCommand, workspaces = []\<rparr>"

definition doc_bare :: Document where
  "doc_bare =
     \<lparr>current_workspace = ''bare'', update_command = defaultUpdateCommand,
      workspaces = [\<lparr>Name = ''bare'', Path = ''/src/bare''\<rparr>]\<rparr>"

text \<open>
  Manifests whose services depend on each other in a circle, under the mode \<^verbatim>\<open>default\<close>:
  \<^verbatim>\<open>a\<close> and \<^verbatim>\<open>b\<close> on each other; and \<^verbatim>\<open>a\<close> on \<^verbatim>\<open>b\<close>, \<^verbatim>\<open>b\<close> on \<^verbatim>\<open>c\<close>, \<^verbatim>\<open>c\<close> on \<^verbatim>\<open>a\<close>.
\<close>

definition M_cycle2 :: Manifest where
  "M_cycle2 =
     [(''a'', \<lparr>svcPath = ''/a'', dependsOn = [\<lparr>depName = ''b'', depMode = ''default''\<rparr>]\<rparr>),
      (''b'', \<lparr>svcPath = ''/b'', dependsOn = [\<lparr>depName = ''a'', depMode = ''default''\<rparr>]\<rparr>)]"

definition M_cycle3 :: Manifest where
  "M_cycle3 =
     [(''a'', \<lparr>svcPath = ''/a'', dependsOn = [\<lparr>depName = ''b'', depMode = ''default''\<rparr>]\<rparr>),
      (''b'', \<lparr>svcPath = ''/b'', dependsOn = [\<lparr>depName = ''c'', depMode = ''default''\<rparr>]\<rparr>),
      (''c'', \<lparr>svcPath = ''/c'', dependsOn = [\<lparr>depName = ''a'', depMode = ''default''\<rparr>]\<rparr>)]"

text \<open>What the container engine reports: nothing running, or only the service \<^verbatim>\<open>b\<close>.\<close>

definition none_running :: "string \<Rightarrow> bool" where
  "none_running n = False"

definition b_running :: "string \<Rightarrow> bool" where
  "b_running n = (n = ''b'')"

section \<open>Properties of the home configuration\<close>

lemma findWorkspace_loop_find:
  "findWorkspace_loop name ws = List.find (\<lambda>w. Name w = name) ws"
  by (induction ws) simp_all

lemma GetCurrentWsPath_loop_find:
  "GetCurrentWsPath_loop cur ws =
     (case List.find (\<lambda>w. Name w = cur) ws of
        None \<Rightarrow> Inl (ErrorsNew ''current workspace is bad'')
      | Some hci \<Rightarrow> Inr (Path hci))"
  by (induction ws) simp_all

lemma findWorkspace_loop_None:
  "findWorkspace_loop name ws = None \<longleftrightarrow> name \<notin> Name ` set ws"
  by (induction ws) auto

lemma findWorkspace_loop_first:
  "name \<notin> Name ` set pre \<Longrightarrow> Name x = name \<Longrightarrow>
     findWorkspace_loop name (pre @ x # post) = Some x"
  by (induction pre) auto

lemma GetCurrentWsPath_loop_first:
  "cur \<notin> Name ` set pre \<Longrightarrow> Name x = cur \<Longrightarrow>
     GetCurrentWsPath_loop cur (pre @ x # post) = Inr (Path x)"
  by (induction pre) auto

lemma GetCurrentWsPath_loop_bad:
  "GetCurrentWsPath_loop cur ws = Inl e \<longleftrightarrow>
     (e = ErrorsNew ''current workspace is bad'' \<and> cur \<notin> Name ` set ws)"
  by (induction ws) auto

lemma GetCurrentWsPath_loop_ok:
  "GetCurrentWsPath_loop cur ws = Inr p \<Longrightarrow>
     \<exists>pre x post. ws = pre @ x # post \<and> cur \<notin> Name ` set pre \<and> Name x = cur \<and> Path x = p"
proof (induction ws)
  case Nil
  then show ?case by simp
next
  case (Cons a ws)
  show ?case
  proof (cases "Name a = cur")
    case True
    with Cons.prems have "Path a = p" by simp
    with True have "a # ws = [] @ a # ws \<and> cur \<notin> Name ` set [] \<and> Name a = cur \<and> Path a = p"
      by simp
    then show ?thesis by blast
  next
    case False
    with Cons.prems have "GetCurrentWsPath_loop cur ws = Inr p" by simp
    from Cons.IH [OF this] obtain pre x post where
      h: "ws = pre @ x # post" "cur \<notin> Name ` set pre" "Name x = cur" "Path x = p"
      by blast
    from h False have
      "a # ws = (a # pre) @ x # post \<and> cur \<notin> Name ` set (a # pre) \<and> Name x = cur \<and> Path x = p"
      by auto
    then show ?thesis by blast
  qed
qed

lemma NotConfigured_neq_CorruptState: "NotConfiguredError \<noteq> CorruptStateError"
  by (simp add: NotConfiguredError_def CorruptStateError_def)

text \<open>
  Claim C6. \<^verbatim>\<open>GetCurrentWsPath\<close> fails with the not-configured error exactly when
  \<^verbatim>\<open>CurrentWorkspace\<close> is empty, fails with the corrupt-state error exactly when
  \<^verbatim>\<open>CurrentWorkspace\<close> is not empty and no entry of \<^verbatim>\<open>Workspaces\<close> bears that name, and
  otherwise returns the path of an entry of \<^verbatim>\<open>Workspaces\<close> whose name is \<^verbatim>\<open>CurrentWorkspace\<close>;
  it fails with no other error. The method only reads its receiver: the state that violates
  the invariant is reported and is not changed.
\<close>

theorem GetCurrentWsPath_three_cases:
  "(GetCurrentWsPath hc = Inl NotConfiguredError \<longleftrightarrow> CurrentWorkspace hc = []) \<and>
   (GetCurrentWsPath hc = Inl CorruptStateError \<longleftrightarrow>
      CurrentWorkspace hc \<noteq> [] \<and> CurrentWorkspace hc \<notin> Name ` set (Workspaces hc)) \<and>
   (CurrentWorkspace hc \<noteq> [] \<and> CurrentWorkspace hc \<in> Name ` set (Workspaces hc) \<longrightarrow>
      (\<exists>x \<in> set (Workspaces hc).
         Name x = CurrentWorkspace hc \<and> GetCurrentWsPath hc = Inr (Path x))) \<and>
   (\<forall>e. GetCurrentWsPath hc = Inl e \<longrightarrow> e = NotConfiguredError \<or> e = CorruptStateError)"
proof (cases "CurrentWorkspace hc = []")
  case True
  then have "GetCurrentWsPath hc = Inl NotConfiguredError"
    by (simp add: GetCurrentWsPath_def NotConfiguredError_def)
  with True show ?thesis
    using NotConfigured_neq_CorruptState by simp
next
  case False
  then have eq: "GetCurrentWsPath hc = GetCurrentWsPath_loop (CurrentWorkspace hc) (Workspaces hc)"
    by (simp add: GetCurrentWsPath_def)
  show ?thesis
  proof (cases "CurrentWorkspace hc \<in> Name ` set (Workspaces hc)")
    case True
    then have "\<And>e. GetCurrentWsPath_loop (CurrentWorkspace hc) (Workspaces hc) \<noteq> Inl e"
      by (simp add: GetCurrentWsPath_loop_bad)
    then obtain p where "GetCurrentWsPath_loop (CurrentWorkspace hc) (Workspaces hc) = Inr p"
      by (cases "GetCurrentWsPath_loop (CurrentWorkspace hc) (Workspaces hc)") blast+
    with eq have p: "GetCurrentWsPath hc = Inr p" by simp
    from GetCurrentWsPath_loop_ok [OF p [unfolded eq]] obtain pre x post where
      h: "Workspaces hc = pre @ x # post" "Name x = CurrentWorkspace hc" "Path x = p"
      by blast
    then have "x \<in> set (Workspaces hc)" by simp
    with h p have "\<exists>x \<in> set (Workspaces hc).
         Name x = CurrentWorkspace hc \<and> GetCurrentWsPath hc = Inr (Path x)"
      by blast
    with p False True show ?thesis by simp
  next
    case notin: False
    then have "GetCurrentWsPath hc = Inl CorruptStateError"
      using eq GetCurrentWsPath_loop_bad [of "CurrentWorkspace hc" "Workspaces hc"]
      by (cases "GetCurrentWsPath hc") (auto simp: CorruptStateError_def)
    with False notin show ?thesis
      using NotConfigured_neq_CorruptState by auto
  qed
qed

theorem GetCurrentWsPath_three_cases_witness:
  "GetCurrentWsPath \<lparr>hcPath = ''/home/u/.elc.yaml'', CurrentWorkspace = [], UpdateCommand = [],
        Workspaces = [\<lparr>Name = ''a'', Path = ''/x''\<rparr>]\<rparr> = Inl NotConfiguredError \<and>
   GetCurrentWsPath \<lparr>hcPath = ''/home/u/.elc.yaml'', CurrentWorkspace = ''b'', UpdateCommand = [],
        Workspaces = [\<lparr>Name = ''a'', Path = ''/x''\<rparr>]\<rparr> = Inl CorruptStateError \<and>
   ''a'' \<noteq> [] \<and> ''a'' \<in> Name ` set [\<lparr>Name = ''a'', Path = ''/x''\<rparr>] \<and>
   GetCurrentWsPath \<lparr>hcPath = ''/home/u/.elc.yaml'', CurrentWorkspace = ''a'', UpdateCommand = [],
        Workspaces = [\<lparr>Name = ''a'', Path = ''/x''\<rparr>]\<rparr> = Inr ''/x''"
  using GetCurrentWsPath_three_cases [of "\<lparr>hcPath = ''/home/u/.elc.yaml'', CurrentWorkspace = [],
          UpdateCommand = [], Workspaces = [\<lparr>Name = ''a'', Path = ''/x''\<rparr>]\<rparr>"]
        GetCurrentWsPath_three_cases [of "\<lparr>hcPath = ''/home/u/.elc.yaml'', CurrentWorkspace = ''b'',
          UpdateCommand = [], Workspaces = [\<lparr>Name = ''a'', Path = ''/x''\<rparr>]\<rparr>"]
        GetCurrentWsPath_three_cases [of "\<lparr>hcPath = ''/home/u/.elc.yaml'', CurrentWorkspace = ''a'',
          UpdateCommand = [], Workspaces = [\<lparr>Name = ''a'', Path = ''/x''\<rparr>]\<rparr>"]
  by simp

lemma WriteFile_ok:
  "\<not> write_fails w \<Longrightarrow>
     fst (WriteFile p b w) = None \<and>
     files (snd (WriteFile p b w)) = (files w)(p \<mapsto> b) \<and>
     wlog (snd (WriteFile p b w)) = wlog w @ [(p, b)] \<and>
     stdout (snd (WriteFile p b w)) = stdout w \<and>
     calls (snd (WriteFile p b w)) = calls w"
  by (auto simp: WriteFile_def write_fails_def split: list.splits bool.splits)

lemma WriteFile_fails:
  "write_fails w \<Longrightarrow>
     fst (WriteFile p b w) = Some (WriteFileError p) \<and>
     files (snd (WriteFile p b w)) = files w \<and>
     wlog (snd (WriteFile p b w)) = wlog w"
  by (auto simp: WriteFile_def write_fails_def split: list.splits bool.splits)

lemma WriteFile_None:
  "WriteFile p b w = (None, w') \<Longrightarrow>
     files w' = (files w)(p \<mapsto> b) \<and> wlog w' = wlog w @ [(p, b)] \<and>
     stdout w' = stdout w \<and> calls w' = calls w"
  by (auto simp: WriteFile_def split: list.splits bool.splits)

text \<open>
  Claim C7. \<^verbatim>\<open>CheckHomeConfigIsEmpty\<close> leaves the world as it is when the file exists; when
  the file is absent it makes the one write of the default document (empty current
  workspace, default update command, no workspaces), which is then the contents of the file
  unless the write fails; the log of writes grows exactly when the file was absent and the
  write did not fail.
\<close>

theorem CheckHomeConfigIsEmpty_writes_iff_absent:
  "(files w configPath \<noteq> None \<longrightarrow> CheckHomeConfigIsEmpty configPath w = (None, w)) \<and>
   (files w configPath = None \<longrightarrow>
      CheckHomeConfigIsEmpty configPath w =
        WriteFile configPath
          (Yaml \<lparr>current_workspace = [], update_command = defaultUpdateCommand, workspaces = []\<rparr>) w) \<and>
   (files w configPath = None \<and> \<not> write_fails w \<longrightarrow>
      fst (CheckHomeConfigIsEmpty configPath w) = None \<and>
      files (snd (CheckHomeConfigIsEmpty configPath w)) =
        (files w)(configPath \<mapsto>
          Yaml \<lparr>current_workspace = [], update_command = defaultUpdateCommand, workspaces = []\<rparr>) \<and>
      wlog (snd (CheckHomeConfigIsEmpty configPath w)) =
        wlog w @ [(configPath,
          Yaml \<lparr>current_workspace = [], update_command = defaultUpdateCommand, workspaces = []\<rparr>)]) \<and>
   (wlog (snd (CheckHomeConfigIsEmpty configPath w)) \<noteq> wlog w \<longleftrightarrow>
      files w configPath = None \<and> \<not> write_fails w)"
proof -
  let ?d = "Yaml \<lparr>current_workspace = [], update_command = defaultUpdateCommand, workspaces = []\<rparr>"
  have present: "files w configPath \<noteq> None \<Longrightarrow> CheckHomeConfigIsEmpty configPath w = (None, w)"
    by (simp add: CheckHomeConfigIsEmpty_def FileExists_def)
  have absent: "files w configPath = None \<Longrightarrow>
      CheckHomeConfigIsEmpty configPath w = WriteFile configPath ?d w"
    by (simp add: CheckHomeConfigIsEmpty_def FileExists_def SaveHomeConfig_def
        defaultHomeConfig_def Marshal_def)
  show ?thesis
  proof (cases "files w configPath = None")
    case True
    show ?thesis
    proof (cases "write_fails w")
      case True
      with \<open>files w configPath = None\<close> absent WriteFile_fails [of w configPath ?d]
      show ?thesis by simp
    next
      case False
      with \<open>files w configPath = None\<close> absent WriteFile_ok [of w configPath ?d]
      show ?thesis by simp
    qed
  next
    case False
    then have "CheckHomeConfigIsEmpty configPath w = (None, w)" by (rule present)
    with False show ?thesis by auto
  qed
qed

theorem CheckHomeConfigIsEmpty_writes_iff_absent_witness:
  "files \<lparr>files = Map.empty, wlog = [], faults = [], stdout = [], calls = []\<rparr> ''/home/u/.elc.yaml'' = None \<and>
   \<not> write_fails \<lparr>files = Map.empty, wlog = [], faults = [], stdout = [], calls = []\<rparr> \<and>
   wlog (snd (CheckHomeConfigIsEmpty ''/home/u/.elc.yaml''
      \<lparr>files = Map.empty, wlog = [], faults = [], stdout = [], calls = []\<rparr>)) =
     [(''/home/u/.elc.yaml'',
       Yaml \<lparr>current_workspace = [], update_command = defaultUpdateCommand, workspaces = []\<rparr>)] \<and>
   files \<lparr>files = [''/home/u/.elc.yaml'' \<mapsto> NotYaml], wlog = [], faults = [], stdout = [], calls = []\<rparr>
      ''/home/u/.elc.yaml'' \<noteq> None \<and>
   CheckHomeConfigIsEmpty ''/home/u/.elc.yaml''
      \<lparr>files = [''/home/u/.elc.yaml'' \<mapsto> NotYaml], wlog = [], faults = [], stdout = [], calls = []\<rparr> =
     (None, \<lparr>files = [''/home/u/.elc.yaml'' \<mapsto> NotYaml], wlog = [], faults = [], stdout = [], calls = []\<rparr>)"
  using CheckHomeConfigIsEmpty_writes_iff_absent
          [of "\<lparr>files = Map.empty, wlog = [], faults = [], stdout = [], calls = []\<rparr>" "''/home/u/.elc.yaml''"]
        CheckHomeConfigIsEmpty_writes_iff_absent
          [of "\<lparr>files = [''/home/u/.elc.yaml'' \<mapsto> NotYaml], wlog = [], faults = [], stdout = [], calls = []\<rparr>"
              "''/home/u/.elc.yaml''"]
  by (simp add: write_fails_def WriteFile_def)

lemma LoadHomeConfig_Yaml:
  "files w p = Some (Yaml d) \<Longrightarrow>
     LoadHomeConfig p w =
       Inr \<lparr>hcPath = p, CurrentWorkspace = current_workspace d,
            UpdateCommand = update_command d, Workspaces = workspaces d\<rparr>"
  by (simp add: LoadHomeConfig_def ReadFile_def Unmarshal_def)

lemma LoadHomeConfig_hcPath: "LoadHomeConfig p w = Inr hc \<Longrightarrow> hcPath hc = p"
  by (auto simp: LoadHomeConfig_def split: sum.splits)

lemma checkAndLoadHC_present:
  "files w p \<noteq> None \<Longrightarrow> checkAndLoadHC p w = (LoadHomeConfig p w, w)"
  by (simp add: checkAndLoadHC_def CheckHomeConfigIsEmpty_def FileExists_def)

lemma checkAndLoadHC_hcPath: "checkAndLoadHC p w = (Inr hc, w1) \<Longrightarrow> hcPath hc = p"
  by (auto simp: checkAndLoadHC_def split: prod.splits option.splits dest: LoadHomeConfig_hcPath)

lemma findWorkspace_Some_iff:
  "(\<exists>ws. findWorkspace hc name = Some ws) \<longleftrightarrow> name \<in> Name ` set (Workspaces hc)"
  using findWorkspace_loop_None [of name "Workspaces hc"]
  by (auto simp: findWorkspace_def)

text \<open>
  Claim C9. The home configuration does not enforce unique workspace names: loading accepts
  any list of workspaces a document holds, \<^verbatim>\<open>AddWorkspace\<close> appends whatever the list holds
  already, and both \<^verbatim>\<open>findWorkspace\<close> and \<^verbatim>\<open>GetCurrentWsPath\<close> resolve a name to the first
  entry of the list that bears it.
\<close>

theorem duplicates_accepted_first_entry_wins:
  "(files w p = Some (Yaml d) \<longrightarrow>
      LoadHomeConfig p w =
        Inr \<lparr>hcPath = p, CurrentWorkspace = current_workspace d,
             UpdateCommand = update_command d, Workspaces = workspaces d\<rparr>) \<and>
   fst (snd (AddWorkspace hc name path w)) =
     hc\<lparr>Workspaces := Workspaces hc @ [\<lparr>Name = name, Path = path\<rparr>]\<rparr> \<and>
   (Workspaces hc = pre @ x # post \<and> name \<notin> Name ` set pre \<and> Name x = name \<longrightarrow>
      findWorkspace hc name = Some x) \<and>
   (Workspaces hc = pre @ x # post \<and> CurrentWorkspace hc \<notin> Name ` set pre \<and>
    Name x = CurrentWorkspace hc \<and> CurrentWorkspace hc \<noteq> [] \<longrightarrow>
      GetCurrentWsPath hc = Inr (Path x))"
proof -
  have "fst (snd (AddWorkspace hc name path w)) =
     hc\<lparr>Workspaces := Workspaces hc @ [\<lparr>Name = name, Path = path\<rparr>]\<rparr>"
    by (simp add: AddWorkspace_def Let_def split: prod.splits)
  then show ?thesis
    by (auto simp: LoadHomeConfig_Yaml findWorkspace_def GetCurrentWsPath_def
        findWorkspace_loop_first GetCurrentWsPath_loop_first)
qed

theorem duplicates_accepted_first_entry_wins_witness:
  "LoadHomeConfig ''/h''
     \<lparr>files = [''/h'' \<mapsto> Yaml \<lparr>current_workspace = ''b'', update_command = [],
         workspaces = [\<lparr>Name = ''a'', Path = ''/1''\<rparr>, \<lparr>Name = ''b'', Path = ''/2''\<rparr>,
                       \<lparr>Name = ''b'', Path = ''/3''\<rparr>]\<rparr>],
      wlog = [], faults = [], stdout = [], calls = []\<rparr> =
     Inr \<lparr>hcPath = ''/h'', CurrentWorkspace = ''b'', UpdateCommand = [],
          Workspaces = [\<lparr>Name = ''a'', Path = ''/1''\<rparr>, \<lparr>Name = ''b'', Path = ''/2''\<rparr>,
                        \<lparr>Name = ''b'', Path = ''/3''\<rparr>]\<rparr> \<and>
   findWorkspace \<lparr>hcPath = ''/h'', CurrentWorkspace = ''b'', UpdateCommand = [],
          Workspaces = [\<lparr>Name = ''a'', Path = ''/1''\<rparr>, \<lparr>Name = ''b'', Path = ''/2''\<rparr>,
                        \<lparr>Name = ''b'', Path = ''/3''\<rparr>]\<rparr> ''b'' = Some \<lparr>Name = ''b'', Path = ''/2''\<rparr> \<and>
   GetCurrentWsPath \<lparr>hcPath = ''/h'', CurrentWorkspace = ''b'', UpdateCommand = [],
          Workspaces = [\<lparr>Name = ''a'', Path = ''/1''\<rparr>, \<lparr>Name = ''b'', Path = ''/2''\<rparr>,
                        \<lparr>Name = ''b'', Path = ''/3''\<rparr>]\<rparr> = Inr ''/2''"
  using duplicates_accepted_first_entry_wins
    [of "\<lparr>files = [''/h'' \<mapsto> Yaml \<lparr>current_workspace = ''b'', update_command = [],
         workspaces = [\<lparr>Name = ''a'', Path = ''/1''\<rparr>, \<lparr>Name = ''b'', Path = ''/2''\<rparr>,
                       \<lparr>Name = ''b'', Path = ''/3''\<rparr>]\<rparr>],
      wlog = [], faults = [], stdout = [], calls = []\<rparr>"
        "''/h''"
        "\<lparr>current_workspace = ''b'', update_command = [],
         workspaces = [\<lparr>Name = ''a'', Path = ''/1''\<rparr>, \<lparr>Name = ''b'', Path = ''/2''\<rparr>,
                       \<lparr>Name = ''b'', Path = ''/3''\<rparr>]\<rparr>"
        "\<lparr>hcPath = ''/h'', CurrentWorkspace = ''b'', UpdateCommand = [],
          Workspaces = [\<lparr>Name = ''a'', Path = ''/1''\<rparr>, \<lparr>Name = ''b'', Path = ''/2''\<rparr>,
                        \<lparr>Name = ''b'', Path = ''/3''\<rparr>]\<rparr>"
        "''b''" "''/4''"
        "[\<lparr>Name = ''a'', Path = ''/1''\<rparr>]" "\<lparr>Name = ''b'', Path = ''/2''\<rparr>"
        "[\<lparr>Name = ''b'', Path = ''/3''\<rparr>]"]
  by simp

text \<open>
  Claim C4. When the document on disk registers a workspace named \<open>n\<close>, \<^verbatim>\<open>workspace add\<close>
  with the name \<open>n\<close> returns the name-collision error and leaves the whole world as it
  was: the file and so the registered workspaces and the current workspace, the log of
  writes, the output.
\<close>

theorem CmdWorkspaceAdd_name_collision:
  assumes "\<not> NeedHelp env [n, q] ''workspace add NAME PATH''"
    and "files w p = Some (Yaml d)"
    and "n \<in> Name ` set (workspaces d)"
  shows "CmdWorkspaceAdd env p [n, q] w =
     (Some (ErrorsNew (''workspace with name '' @ quoted n @ '' already exists'')), w)"
proof -
  let ?hc = "\<lparr>hcPath = p, CurrentWorkspace = current_workspace d,
            UpdateCommand = update_command d, Workspaces = workspaces d\<rparr>"
  from assms(2) have load: "checkAndLoadHC p w = (Inr ?hc, w)"
    by (simp add: checkAndLoadHC_present LoadHomeConfig_Yaml)
  from assms(3) obtain ws where "findWorkspace ?hc n = Some ws"
    using findWorkspace_Some_iff [of ?hc n] by auto
  with assms(1) load show ?thesis
    by (simp add: CmdWorkspaceAdd_def)
qed

theorem CmdWorkspaceAdd_name_collision_witness:
  "CmdWorkspaceAdd
     \<lparr>NeedHelp = (\<lambda>args usage. ''--help'' \<in> set args), Getuid = 1000, ParseInt = (\<lambda>s. None),
      Getwd = Inr ''/ws'', LoadFromFile = (\<lambda>wsPath cwd. Inl (CollabError ''no manifest'')),
      checkVersion = (\<lambda>cfg. None), CreateFromSvcName = (\<lambda>cfg n. Inr (Service n)),
      Stop = (\<lambda>cs svc. None), Destroy = (\<lambda>cs svc. None), Exec = (\<lambda>cs svc ps. Inr 0)\<rparr>
     ''/h'' [''shop'', ''/other'']
     \<lparr>files = [''/h'' \<mapsto> Yaml \<lparr>current_workspace = ''shop'', update_command = [],
         workspaces = [\<lparr>Name = ''shop'', Path = ''/src/shop''\<rparr>]\<rparr>],
      wlog = [], faults = [], stdout = [], calls = []\<rparr> =
   (Some (ErrorsNew (''workspace with name '' @ quoted ''shop'' @ '' already exists'')),
     \<lparr>files = [''/h'' \<mapsto> Yaml \<lparr>current_workspace = ''shop'', update_command = [],
         workspaces = [\<lparr>Name = ''shop'', Path = ''/src/shop''\<rparr>]\<rparr>],
      wlog = [], faults = [], stdout = [], calls = []\<rparr>)"
  by (rule CmdWorkspaceAdd_name_collision
        [where d = "\<lparr>current_workspace = ''shop'', update_command = [],
         workspaces = [\<lparr>Name = ''shop'', Path = ''/src/shop''\<rparr>]\<rparr>"]) simp_all

lemma SaveHomeConfig_None:
  "SaveHomeConfig hc w = (None, w') \<Longrightarrow>
     files w' = (files w)(hcPath hc \<mapsto> Marshal hc) \<and>
     wlog w' = wlog w @ [(hcPath hc, Marshal hc)]"
  by (auto simp: SaveHomeConfig_def dest: WriteFile_None)

lemma AddWorkspace_None:
  "AddWorkspace hc name path w = (None, hc2, w2) \<Longrightarrow>
     hc2 = hc\<lparr>Workspaces := Workspaces hc @ [\<lparr>Name = name, Path = path\<rparr>]\<rparr> \<and>
     files w2 = (files w)(hcPath hc \<mapsto> Marshal hc2) \<and>
     wlog w2 = wlog w @ [(hcPath hc, Marshal hc2)]"
  by (auto simp: AddWorkspace_def Let_def split: prod.splits dest: SaveHomeConfig_None)

text \<open>
  What a successful \<^verbatim>\<open>workspace add\<close> has done after the home configuration was loaded:
  one save of the extended list and, when no workspace was current, a second save that
  makes the new workspace current.
\<close>

lemma CmdWorkspaceAdd_success:
  assumes nh: "\<not> NeedHelp env [n, q] ''workspace add NAME PATH''"
    and load: "checkAndLoadHC p w = (Inr hc, w1)"
    and ok: "CmdWorkspaceAdd env p [n, q] w = (None, w2)"
  shows "if CurrentWorkspace hc = [] then
           wlog w2 = wlog w1 @
             [(p, Marshal (hc\<lparr>Workspaces := Workspaces hc @ [\<lparr>Name = n, Path = q\<rparr>]\<rparr>)),
              (p, Marshal (hc\<lparr>Workspaces := Workspaces hc @ [\<lparr>Name = n, Path = q\<rparr>],
                              CurrentWorkspace := n\<rparr>))] \<and>
           files w2 p = Some (Marshal (hc\<lparr>Workspaces := Workspaces hc @ [\<lparr>Name = n, Path = q\<rparr>],
                              CurrentWorkspace := n\<rparr>))
         else
           wlog w2 = wlog w1 @
             [(p, Marshal (hc\<lparr>Workspaces := Workspaces hc @ [\<lparr>Name = n, Path = q\<rparr>]\<rparr>))] \<and>
           files w2 p = Some (Marshal (hc\<lparr>Workspaces := Workspaces hc @ [\<lparr>Name = n, Path = q\<rparr>]\<rparr>))"
proof -
  have path: "hcPath hc = p" using load by (rule checkAndLoadHC_hcPath)
  let ?hc2 = "hc\<lparr>Workspaces := Workspaces hc @ [\<lparr>Name = n, Path = q\<rparr>]\<rparr>"
  from nh load ok have fw: "findWorkspace hc n = None"
    by (cases "findWorkspace hc n") (simp_all add: CmdWorkspaceAdd_def)
  obtain e hc2 wa where add: "AddWorkspace hc n q w1 = (e, hc2, wa)"
    by (cases "AddWorkspace hc n q w1") auto
  from nh load ok fw add have e: "e = None"
    by (cases e) (simp_all add: CmdWorkspaceAdd_def)
  from AddWorkspace_None [OF add [unfolded e]] path
  have hc2: "hc2 = ?hc2" and fa: "files wa = (files w1)(p \<mapsto> Marshal ?hc2)"
    and la: "wlog wa = wlog w1 @ [(p, Marshal ?hc2)]"
    by simp_all
  let ?w3 = "Printf (''workspace '' @ quoted n @ '' is added'' @ [CHR 0x0A]) wa"
  have f3: "files ?w3 = files wa" and l3: "wlog ?w3 = wlog wa"
    by (simp_all add: Printf_def)
  show ?thesis
  proof (cases "CurrentWorkspace hc = []")
    case True
    obtain e' wb where sv: "SaveHomeConfig (?hc2\<lparr>CurrentWorkspace := n\<rparr>) ?w3 = (e', wb)"
      by (cases "SaveHomeConfig (?hc2\<lparr>CurrentWorkspace := n\<rparr>) ?w3") auto
    from nh load ok fw add e hc2 True sv have e': "e' = None"
      by (cases e') (simp_all add: CmdWorkspaceAdd_def)
    from nh load ok fw add e hc2 True sv e'
    have w2: "w2 = Printf (''active workspace changed to '' @ quoted n @ [CHR 0x0A]) wb"
      by (simp add: CmdWorkspaceAdd_def)
    from SaveHomeConfig_None [OF sv [unfolded e']] path
    have "files wb = (files ?w3)(p \<mapsto> Marshal (?hc2\<lparr>CurrentWorkspace := n\<rparr>))"
      and "wlog wb = wlog ?w3 @ [(p, Marshal (?hc2\<lparr>CurrentWorkspace := n\<rparr>))]"
      by simp_all
    with w2 f3 l3 fa la True show ?thesis
      by (simp add: Printf_def)
  next
    case False
    from nh load ok fw add e hc2 False have "w2 = ?w3"
      by (simp add: CmdWorkspaceAdd_def)
    with f3 l3 fa la False show ?thesis by simp
  qed
qed

text \<open>
  Claim C5 as stated fails on a home configuration that registers no workspace and whose
  current workspace is the name \<^verbatim>\<open>ghost\<close>: \<^verbatim>\<open>workspace add shop /src/shop\<close> succeeds and adds
  the first workspace, yet it makes one write only and \<^verbatim>\<open>ghost\<close> stays the current workspace.
\<close>

theorem first_workspace_not_made_current_counterexample:
  "workspaces doc_ghost = [] \<and>
   fst (CmdWorkspaceAdd env_example ''/h'' [''shop'', ''/src/shop''] (world_with doc_ghost)) = None \<and>
   wlog (snd (CmdWorkspaceAdd env_example ''/h'' [''shop'', ''/src/shop''] (world_with doc_ghost))) =
     [(''/h'', Yaml \<lparr>current_workspace = ''ghost'', update_command = defaultUpdateCommand,
                     workspaces = [\<lparr>Name = ''shop'', Path = ''/src/shop''\<rparr>]\<rparr>)] \<and>
   files (snd (CmdWorkspaceAdd env_example ''/h'' [''shop'', ''/src/shop''] (world_with doc_ghost))) ''/h'' =
     Some (Yaml \<lparr>current_workspace = ''ghost'', update_command = defaultUpdateCommand,
                  workspaces = [\<lparr>Name = ''shop'', Path = ''/src/shop''\<rparr>]\<rparr>)"
proof -
  let ?hc = "\<lparr>hcPath = ''/h'', CurrentWorkspace = ''ghost'', UpdateCommand = defaultUpdateCommand,
              Workspaces = []\<rparr>"
  have nh: "\<not> NeedHelp env_example [''shop'', ''/src/shop''] ''workspace add NAME PATH''"
    by (simp add: env_example_def)
  have l: "checkAndLoadHC ''/h'' (world_with doc_ghost) = (Inr ?hc, world_with doc_ghost)"
    by (simp add: checkAndLoadHC_present LoadHomeConfig_Yaml world_with_def doc_ghost_def)
  have ok: "fst (CmdWorkspaceAdd env_example ''/h'' [''shop'', ''/src/shop''] (world_with doc_ghost)) = None"
    using nh l
    by (simp add: CmdWorkspaceAdd_def findWorkspace_def AddWorkspace_def SaveHomeConfig_def
        WriteFile_def Printf_def world_with_def Let_def)
  then have r: "CmdWorkspaceAdd env_example ''/h'' [''shop'', ''/src/shop''] (world_with doc_ghost) =
      (None, snd (CmdWorkspaceAdd env_example ''/h'' [''shop'', ''/src/shop''] (world_with doc_ghost)))"
    by (simp add: prod_eq_iff)
  from CmdWorkspaceAdd_success [OF nh l r] ok show ?thesis
    by (simp add: Marshal_def world_with_def doc_ghost_def)
qed

text \<open>
  Claim C5, amended. Let \<^verbatim>\<open>workspace add\<close> succeed on the home configuration \<open>hc\<close> that it
  has loaded. If no workspace was current (\<^verbatim>\<open>CurrentWorkspace\<close> empty, as it is when the first
  workspace is added to a freshly created configuration), the command has made two writes
  after the load: first the document with the new workspace appended to the list, then the
  same document with the new workspace as the current one, which is the final contents of
  the file. If a workspace was current (\<^verbatim>\<open>CurrentWorkspace\<close> not empty, whatever the list of
  workspaces holds), it has made one write, of the document with the new workspace
  appended and the current workspace unchanged.
\<close>

theorem CmdWorkspaceAdd_writes_by_current_workspace:
  assumes "\<not> NeedHelp env [n, q] ''workspace add NAME PATH''"
    and "checkAndLoadHC p w = (Inr hc, w1)"
    and "CmdWorkspaceAdd env p [n, q] w = (None, w2)"
  shows "(CurrentWorkspace hc = [] \<longrightarrow>
            wlog w2 = wlog w1 @
              [(p, Yaml \<lparr>current_workspace = [], update_command = UpdateCommand hc,
                         workspaces = Workspaces hc @ [\<lparr>Name = n, Path = q\<rparr>]\<rparr>),
               (p, Yaml \<lparr>current_workspace = n, update_command = UpdateCommand hc,
                         workspaces = Workspaces hc @ [\<lparr>Name = n, Path = q\<rparr>]\<rparr>)] \<and>
            files w2 p = Some (Yaml \<lparr>current_workspace = n, update_command = UpdateCommand hc,
                         workspaces = Workspaces hc @ [\<lparr>Name = n, Path = q\<rparr>]\<rparr>)) \<and>
         (CurrentWorkspace hc \<noteq> [] \<longrightarrow>
            wlog w2 = wlog w1 @
              [(p, Yaml \<lparr>current_workspace = CurrentWorkspace hc, update_command = UpdateCommand hc,
                         workspaces = Workspaces hc @ [\<lparr>Name = n, Path = q\<rparr>]\<rparr>)] \<and>
            files w2 p = Some (Yaml \<lparr>current_workspace = CurrentWorkspace hc,
                         update_command = UpdateCommand hc,
                         workspaces = Workspaces hc @ [\<lparr>Name = n, Path = q\<rparr>]\<rparr>))"
  using CmdWorkspaceAdd_success [OF assms]
  by (auto simp: Marshal_def)

theorem CmdWorkspaceAdd_writes_by_current_workspace_witness:
  "wlog (snd (CmdWorkspaceAdd env_example ''/h'' [''shop'', ''/src/shop''] (world_with defaultDocument))) =
     [(''/h'', Yaml \<lparr>current_workspace = [], update_command = defaultUpdateCommand,
                     workspaces = [\<lparr>Name = ''shop'', Path = ''/src/shop''\<rparr>]\<rparr>),
      (''/h'', Yaml \<lparr>current_workspace = ''shop'', update_command = defaultUpdateCommand,
                     workspaces = [\<lparr>Name = ''shop'', Path = ''/src/shop''\<rparr>]\<rparr>)] \<and>
   wlog (snd (CmdWorkspaceAdd env_example ''/h'' [''blog'', ''/src/blog''] (world_with doc_shop))) =
     [(''/h'', Yaml \<lparr>current_workspace = ''shop'', update_command = defaultUpdateCommand,
                     workspaces = [\<lparr>Name = ''shop'', Path = ''/src/shop''\<rparr>,
                                   \<lparr>Name = ''blog'', Path = ''/src/blog''\<rparr>]\<rparr>)]"
proof -
  let ?hc0 = "\<lparr>hcPath = ''/h'', CurrentWorkspace = [], UpdateCommand = defaultUpdateCommand,
               Workspaces = []\<rparr>"
  let ?hc1 = "\<lparr>hcPath = ''/h'', CurrentWorkspace = ''shop'', UpdateCommand = defaultUpdateCommand,
               Workspaces = [\<lparr>Name = ''shop'', Path = ''/src/shop''\<rparr>]\<rparr>"
  have nh0: "\<not> NeedHelp env_example [''shop'', ''/src/shop''] ''workspace add NAME PATH''"
    and nh1: "\<not> NeedHelp env_example [''blog'', ''/src/blog''] ''workspace add NAME PATH''"
    by (simp_all add: env_example_def)
  have l0: "checkAndLoadHC ''/h'' (world_with defaultDocument) = (Inr ?hc0, world_with defaultDocument)"
    by (simp add: checkAndLoadHC_present LoadHomeConfig_Yaml world_with_def defaultDocument_def)
  have l1: "checkAndLoadHC ''/h'' (world_with doc_shop) = (Inr ?hc1, world_with doc_shop)"
    by (simp add: checkAndLoadHC_present LoadHomeConfig_Yaml world_with_def doc_shop_def)
  have ok0: "fst (CmdWorkspaceAdd env_example ''/h'' [''shop'', ''/src/shop''] (world_with defaultDocument)) = None"
    using nh0 l0
    by (simp add: CmdWorkspaceAdd_def findWorkspace_def AddWorkspace_def SaveHomeConfig_def
        WriteFile_def Printf_def world_with_def Let_def)
  have ok1: "fst (CmdWorkspaceAdd env_example ''/h'' [''blog'', ''/src/blog''] (world_with doc_shop)) = None"
    using nh1 l1
    by (simp add: CmdWorkspaceAdd_def findWorkspace_def AddWorkspace_def SaveHomeConfig_def
        WriteFile_def Printf_def world_with_def Let_def)
  have cur0: "CurrentWorkspace ?hc0 = []" by simp
  have cur1: "CurrentWorkspace ?hc1 \<noteq> []" by simp
  have r0: "CmdWorkspaceAdd env_example ''/h'' [''shop'', ''/src/shop''] (world_with defaultDocument) =
      (None, snd (CmdWorkspaceAdd env_example ''/h'' [''shop'', ''/src/shop''] (world_with defaultDocument)))"
    using ok0 by (simp add: prod_eq_iff)
  have r1: "CmdWorkspaceAdd env_example ''/h'' [''blog'', ''/src/blog''] (world_with doc_shop) =
      (None, snd (CmdWorkspaceAdd env_example ''/h'' [''blog'', ''/src/blog''] (world_with doc_shop)))"
    using ok1 by (simp add: prod_eq_iff)
  from CmdWorkspaceAdd_writes_by_current_workspace [OF nh0 l0 r0] cur0
       CmdWorkspaceAdd_writes_by_current_workspace [OF nh1 l1 r1] cur1
  show ?thesis
    by (simp add: world_with_def)
qed

lemma checkAndLoadHC_absent:
  assumes "files w p = None" and "\<not> write_fails w"
  shows "fst (checkAndLoadHC p w) = Inr (defaultHomeConfig p) \<and>
         files (snd (checkAndLoadHC p w)) = (files w)(p \<mapsto> Yaml defaultDocument) \<and>
         wlog (snd (checkAndLoadHC p w)) = wlog w @ [(p, Yaml defaultDocument)]"
proof -
  have m: "Marshal (defaultHomeConfig p) = Yaml defaultDocument"
    by (simp add: Marshal_def defaultHomeConfig_def defaultDocument_def)
  have hp: "hcPath (defaultHomeConfig p) = p"
    by (simp add: defaultHomeConfig_def)
  from assms(1) have c: "CheckHomeConfigIsEmpty p w = WriteFile p (Yaml defaultDocument) w"
    by (simp add: CheckHomeConfigIsEmpty_def FileExists_def SaveHomeConfig_def m hp)
  obtain e w' where wf: "WriteFile p (Yaml defaultDocument) w = (e, w')"
    by (cases "WriteFile p (Yaml defaultDocument) w") auto
  from WriteFile_ok [OF assms(2), of p "Yaml defaultDocument"] wf
  have e: "e = None" and f: "files w' = (files w)(p \<mapsto> Yaml defaultDocument)"
    and l: "wlog w' = wlog w @ [(p, Yaml defaultDocument)]"
    by simp_all
  from f have "LoadHomeConfig p w' = Inr (defaultHomeConfig p)"
    by (simp add: LoadHomeConfig_def ReadFile_def Unmarshal_def defaultHomeConfig_def
        defaultDocument_def)
  with c wf e f l show ?thesis
    by (simp add: checkAndLoadHC_def)
qed

text \<open>
  Claim C10. \<^verbatim>\<open>workspace add\<close> and \<^verbatim>\<open>workspace select\<close> ensure the home configuration file
  before they count their arguments: called with a wrong number of arguments when the file
  is absent (and the write does not fail), each returns its argument-count error and has
  nevertheless written the default document to the file.
\<close>

theorem arg_count_error_after_file_creation:
  assumes "files w p = None" and "\<not> write_fails w"
  shows "(\<not> NeedHelp env args ''workspace add NAME PATH'' \<and> length args \<noteq> 2 \<longrightarrow>
            fst (CmdWorkspaceAdd env p args w) =
              Some (ErrorsNew ''command requires exactly 2 arguments'') \<and>
            files (snd (CmdWorkspaceAdd env p args w)) p = Some (Yaml defaultDocument) \<and>
            wlog (snd (CmdWorkspaceAdd env p args w)) = wlog w @ [(p, Yaml defaultDocument)]) \<and>
         (\<not> NeedHelp env args ''workspace select NAME'' \<and> length args \<noteq> 1 \<longrightarrow>
            fst (CmdWorkspaceSelect env p args w) =
              Some (ErrorsNew ''command requires exactly 1 argument'') \<and>
            files (snd (CmdWorkspaceSelect env p args w)) p = Some (Yaml defaultDocument) \<and>
            wlog (snd (CmdWorkspaceSelect env p args w)) = wlog w @ [(p, Yaml defaultDocument)])"
proof -
  obtain r w1 where c: "checkAndLoadHC p w = (r, w1)"
    by (cases "checkAndLoadHC p w") auto
  from checkAndLoadHC_absent [OF assms] c
  have r: "r = Inr (defaultHomeConfig p)"
    and f: "files w1 p = Some (Yaml defaultDocument)"
    and l: "wlog w1 = wlog w @ [(p, Yaml defaultDocument)]"
    by simp_all
  from c r f l show ?thesis
    by (simp add: CmdWorkspaceAdd_def CmdWorkspaceSelect_def)
qed

theorem arg_count_error_after_file_creation_witness:
  "files world_fresh ''/h'' = None \<and> \<not> write_fails world_fresh \<and>
   \<not> NeedHelp env_example [''shop''] ''workspace add NAME PATH'' \<and> length [''shop''] \<noteq> 2 \<and>
   fst (CmdWorkspaceAdd env_example ''/h'' [''shop''] world_fresh) =
     Some (ErrorsNew ''command requires exactly 2 arguments'') \<and>
   files (snd (CmdWorkspaceAdd env_example ''/h'' [''shop''] world_fresh)) ''/h'' =
     Some (Yaml defaultDocument) \<and>
   \<not> NeedHelp env_example [] ''workspace select NAME'' \<and> length ([] :: string list) \<noteq> 1 \<and>
   fst (CmdWorkspaceSelect env_example ''/h'' [] world_fresh) =
     Some (ErrorsNew ''command requires exactly 1 argument'') \<and>
   files (snd (CmdWorkspaceSelect env_example ''/h'' [] world_fresh)) ''/h'' =
     Some (Yaml defaultDocument)"
proof -
  have a: "files world_fresh ''/h'' = None" and b: "\<not> write_fails world_fresh"
    by (simp_all add: world_fresh_def write_fails_def)
  have c: "\<not> NeedHelp env_example [''shop''] ''workspace add NAME PATH''"
    and d: "\<not> NeedHelp env_example [] ''workspace select NAME''"
    by (simp_all add: env_example_def)
  from arg_count_error_after_file_creation [OF a b, of env_example "[''shop'']"]
       arg_count_error_after_file_creation [OF a b, of env_example "[]"] a b c d
  show ?thesis by simp
qed

section \<open>Properties of the service commands\<close>

lemma getWorkspaceConfig_shop:
  "getWorkspaceConfig env_example ''/h'' (world_with doc_shop) = (Inr cfg_example, world_with doc_shop)"
  by (simp add: getWorkspaceConfig_def checkAndLoadHC_present LoadHomeConfig_Yaml world_with_def
      doc_shop_def GetCurrentWsPath_def env_example_def)

lemma getWorkspaceConfig_plain:
  "getWorkspaceConfig env_example ''/h'' (world_with doc_plain) = (Inr cfg_plain, world_with doc_plain)"
  by (simp add: getWorkspaceConfig_def checkAndLoadHC_present LoadHomeConfig_Yaml world_with_def
      doc_plain_def GetCurrentWsPath_def env_example_def)

lemma getWorkspaceConfig_bare:
  "getWorkspaceConfig env_example ''/h'' (world_with doc_bare) = (Inr cfg_empty, world_with doc_bare)"
  by (simp add: getWorkspaceConfig_def checkAndLoadHC_present LoadHomeConfig_Yaml world_with_def
      doc_bare_def GetCurrentWsPath_def env_example_def)

lemma Parse_exec_svc:
  "Parse (ParseInt env_example) (execFlags env_example) [''--svc=api-cli'', ''ls''] =
     Inr ([(''svc'', StringValue ''api-cli''), (''mode'', StringValue ''default''),
           (''force'', BoolValue False), (''uid'', IntValue 1000)], [''ls''])"
  by (simp add: execFlags_def env_example_def flag_Set_def flag_store_def)

lemma Parse_exec_plain:
  "Parse (ParseInt env_example) (execFlags env_example) [''ls''] =
     Inr ([(''svc'', StringValue []), (''mode'', StringValue ''default''),
           (''force'', BoolValue False), (''uid'', IntValue 1000)], [''ls''])"
  by (simp add: execFlags_def env_example_def)

lemma CmdServiceExec_unfold:
  assumes "\<not> NeedHelp env args ''[OPTIONS] COMMAND [ARGS]''"
    and "Parse (ParseInt env) (execFlags env) args = Inr (fs, rest)"
    and "getWorkspaceConfig env p w = (Inr cfg, w1)"
    and "CmdServiceExec_resolve cfg
           \<lparr>SvcName = flag_string fs ''svc'', Cmd = rest, Mode = flag_string fs ''mode'',
            Force = flag_bool fs ''force'', UID = flag_int fs ''uid'', WorkingDir = []\<rparr> =
         Inr (mdl, ps)"
  shows "CmdServiceExec env p args w =
     (case (case mdl of
              None \<Rightarrow> Inr ps
            | Some m \<Rightarrow>
                (case renderPath cfg (ExecPath m) of
                   Inl err \<Rightarrow> Inl err
                 | Inr dir \<Rightarrow> Inr (ps\<lparr>WorkingDir := dir\<rparr>)))
      of
        Inl err \<Rightarrow> (Inl err, w1)
      | Inr ps2 \<Rightarrow>
          (case CreateFromSvcName env cfg (SvcName ps2) of
             Inl err \<Rightarrow> (Inl err, w1)
           | Inr svc \<Rightarrow> svc_Exec env svc ps2 w1))"
  using assms by (simp add: CmdServiceExec_def)

text \<open>
  With a name given, the choice of the target never yields a module: the working directory
  of the call stays as the flags left it.
\<close>

lemma CmdServiceExec_resolve_by_name:
  "SvcName ps \<noteq> [] \<Longrightarrow>
     CmdServiceExec_resolve cfg ps =
       Inr (None, (case FindModuleByName cfg (SvcName ps) of
                     Inr m \<Rightarrow> ps\<lparr>SvcName := HostedIn m\<rparr>
                   | Inl err \<Rightarrow> ps))"
  by (simp add: CmdServiceExec_resolve_def split: sum.splits)

text \<open>
  Claim C1, at the scenario of the specification: the manifest has the module \<^verbatim>\<open>api-cli\<close>,
  hosted in the service \<^verbatim>\<open>api\<close> with the exec path \<^verbatim>\<open>/app/bin\<close>, and the command is
  \<^verbatim>\<open>exec --svc=api-cli ls\<close>. The one call made is \<^verbatim>\<open>Exec\<close> on the handle of \<^verbatim>\<open>api\<close>, the hosting
  service, with the command \<^verbatim>\<open>ls\<close> and with an empty working directory: the exec path of the
  module is not passed.
\<close>

theorem exec_by_module_name_leaves_working_dir_empty:
  "CmdServiceExec env_example ''/h'' [''--svc=api-cli'', ''ls''] (world_with doc_shop) =
     (Inr 0,
      (world_with doc_shop)
        \<lparr>calls := [ExecCall (Service ''api'')
           \<lparr>SvcName = ''api'', Cmd = [''ls''], Mode = ''default'', Force = False,
            UID = 1000, WorkingDir = []\<rparr>]\<rparr>)"
proof -
  have nh: "\<not> NeedHelp env_example [''--svc=api-cli'', ''ls''] ''[OPTIONS] COMMAND [ARGS]''"
    by (simp add: env_example_def)
  have res: "CmdServiceExec_resolve cfg_example
           \<lparr>SvcName = ''api-cli'', Cmd = [''ls''], Mode = ''default'',
            Force = False, UID = 1000, WorkingDir = []\<rparr> =
         Inr (None, \<lparr>SvcName = ''api'', Cmd = [''ls''], Mode = ''default'',
            Force = False, UID = 1000, WorkingDir = []\<rparr>)"
    by (simp add: CmdServiceExec_resolve_by_name cfg_example_def)
  have "CmdServiceExec env_example ''/h'' [''--svc=api-cli'', ''ls''] (world_with doc_shop) =
      svc_Exec env_example (Service ''api'')
        \<lparr>SvcName = ''api'', Cmd = [''ls''], Mode = ''default'', Force = False,
            UID = 1000, WorkingDir = []\<rparr> (world_with doc_shop)"
    using res
    by (simp add: CmdServiceExec_unfold [OF nh Parse_exec_svc getWorkspaceConfig_shop]
        flag_string_def flag_bool_def flag_int_def)
       (simp add: env_example_def cfg_example_def)
  then show ?thesis
    by (simp add: svc_Exec_def env_example_def world_with_def)
qed

text \<open>
  Claim C2 as stated fails where both a module and a service are found from the working
  directory: \<^verbatim>\<open>exec ls\<close> in such a directory, with the service \<^verbatim>\<open>web\<close> found by path, calls
  \<^verbatim>\<open>Exec\<close> on the handle of \<^verbatim>\<open>api\<close>, the service hosting the module found by path, in the
  module's exec path; no call is made on \<^verbatim>\<open>web\<close>.
\<close>

theorem exec_by_path_prefers_service_counterexample:
  "FindServiceByPath cfg_example = Inr ''web'' \<and>
   getWorkspaceConfig env_example ''/h'' (world_with doc_shop) =
     (Inr cfg_example, world_with doc_shop) \<and>
   CmdServiceExec env_example ''/h'' [''ls''] (world_with doc_shop) =
     (Inr 0,
      (world_with doc_shop)
        \<lparr>calls := [ExecCall (Service ''api'')
           \<lparr>SvcName = ''api'', Cmd = [''ls''], Mode = ''default'', Force = False,
            UID = 1000, WorkingDir = ''/app/bin''\<rparr>]\<rparr>)"
proof -
  have nh: "\<not> NeedHelp env_example [''ls''] ''[OPTIONS] COMMAND [ARGS]''"
    by (simp add: env_example_def)
  have res: "CmdServiceExec_resolve cfg_example
           \<lparr>SvcName = [], Cmd = [''ls''], Mode = ''default'',
            Force = False, UID = 1000, WorkingDir = []\<rparr> =
         Inr (Some \<lparr>HostedIn = ''api'', ExecPath = ''/app/bin''\<rparr>,
              \<lparr>SvcName = ''api'', Cmd = [''ls''], Mode = ''default'',
               Force = False, UID = 1000, WorkingDir = []\<rparr>)"
    by (simp add: CmdServiceExec_resolve_def cfg_example_def)
  have "CmdServiceExec env_example ''/h'' [''ls''] (world_with doc_shop) =
      svc_Exec env_example (Service ''api'')
        \<lparr>SvcName = ''api'', Cmd = [''ls''], Mode = ''default'', Force = False,
            UID = 1000, WorkingDir = ''/app/bin''\<rparr> (world_with doc_shop)"
    using res
    by (simp add: CmdServiceExec_unfold [OF nh Parse_exec_plain getWorkspaceConfig_shop]
        flag_string_def flag_bool_def flag_int_def)
       (simp add: env_example_def cfg_example_def)
  then have run: "CmdServiceExec env_example ''/h'' [''ls''] (world_with doc_shop) =
     (Inr 0,
      (world_with doc_shop)
        \<lparr>calls := [ExecCall (Service ''api'')
           \<lparr>SvcName = ''api'', Cmd = [''ls''], Mode = ''default'', Force = False,
            UID = 1000, WorkingDir = ''/app/bin''\<rparr>]\<rparr>)"
    by (simp add: svc_Exec_def env_example_def world_with_def)
  have found: "FindServiceByPath cfg_example = Inr ''web''"
    by (simp add: cfg_example_def)
  from found getWorkspaceConfig_shop run show ?thesis
    by (intro conjI)
qed

text \<open>
  Claim C2, amended. When \<^verbatim>\<open>exec\<close> is given no name, resolution by path prefers modules to
  services: if a module is found from the working directory, the call goes to the handle
  of its hosting service, in the module's rendered exec path, whatever
  \<^verbatim>\<open>FindServiceByPath\<close> would return; only if no module is found is the service found from
  the working directory the target, with the working directory of the call left empty;
  and if neither is found the command fails with the error of \<^verbatim>\<open>FindServiceByPath\<close> and
  calls nothing.
\<close>

theorem exec_by_path_prefers_module:
  assumes "\<not> NeedHelp env args ''[OPTIONS] COMMAND [ARGS]''"
    and "Parse (ParseInt env) (execFlags env) args = Inr (fs, rest)"
    and "flag_string fs ''svc'' = []"
    and "getWorkspaceConfig env p w = (Inr cfg, w1)"
  shows "(FindModuleByPath cfg = Inr m \<and> renderPath cfg (ExecPath m) = Inr dir \<and>
          CreateFromSvcName env cfg (HostedIn m) = Inr svc \<longrightarrow>
            calls (snd (CmdServiceExec env p args w)) =
              calls w1 @ [ExecCall svc
                \<lparr>SvcName = HostedIn m, Cmd = rest, Mode = flag_string fs ''mode'',
                 Force = flag_bool fs ''force'', UID = flag_int fs ''uid'', WorkingDir = dir\<rparr>]) \<and>
         (FindModuleByPath cfg = Inl e \<and> FindServiceByPath cfg = Inr s \<and>
          CreateFromSvcName env cfg s = Inr svc' \<longrightarrow>
            calls (snd (CmdServiceExec env p args w)) =
              calls w1 @ [ExecCall svc'
                \<lparr>SvcName = s, Cmd = rest, Mode = flag_string fs ''mode'',
                 Force = flag_bool fs ''force'', UID = flag_int fs ''uid'', WorkingDir = []\<rparr>]) \<and>
         (FindModuleByPath cfg = Inl e \<and> FindServiceByPath cfg = Inl e' \<longrightarrow>
            CmdServiceExec env p args w = (Inl e', w1))"
proof -
  let ?ps = "\<lparr>SvcName = flag_string fs ''svc'', Cmd = rest, Mode = flag_string fs ''mode'',
            Force = flag_bool fs ''force'', UID = flag_int fs ''uid'', WorkingDir = []\<rparr>"
  have by_module: "calls (snd (CmdServiceExec env p args w)) =
              calls w1 @ [ExecCall svc (?ps\<lparr>SvcName := HostedIn m, WorkingDir := dir\<rparr>)]"
    if "FindModuleByPath cfg = Inr m" "renderPath cfg (ExecPath m) = Inr dir"
       "CreateFromSvcName env cfg (HostedIn m) = Inr svc"
  proof -
    from that(1) assms(3)
    have "CmdServiceExec_resolve cfg ?ps = Inr (Some m, ?ps\<lparr>SvcName := HostedIn m\<rparr>)"
      by (simp add: CmdServiceExec_resolve_def)
    from CmdServiceExec_unfold [OF assms(1,2,4) this] that(2,3)
    show ?thesis by (simp add: svc_Exec_def)
  qed
  have by_service: "calls (snd (CmdServiceExec env p args w)) =
              calls w1 @ [ExecCall svc' (?ps\<lparr>SvcName := s\<rparr>)]"
    if "FindModuleByPath cfg = Inl e" "FindServiceByPath cfg = Inr s"
       "CreateFromSvcName env cfg s = Inr svc'"
  proof -
    from that(1,2) assms(3)
    have "CmdServiceExec_resolve cfg ?ps = Inr (None, ?ps\<lparr>SvcName := s\<rparr>)"
      by (simp add: CmdServiceExec_resolve_def)
    from CmdServiceExec_unfold [OF assms(1,2,4) this] that(3)
    show ?thesis by (simp add: svc_Exec_def)
  qed
  have neither: "CmdServiceExec env p args w = (Inl e', w1)"
    if "FindModuleByPath cfg = Inl e" "FindServiceByPath cfg = Inl e'"
  proof -
    from that assms(3) have "CmdServiceExec_resolve cfg ?ps = Inl e'"
      by (simp add: CmdServiceExec_resolve_def)
    with assms(1,2,4) show ?thesis by (simp add: CmdServiceExec_def)
  qed
  from by_module by_service neither assms(3) show ?thesis by simp
qed

theorem exec_by_path_prefers_module_witness:
  "calls (snd (CmdServiceExec env_example ''/h'' [''ls''] (world_with doc_shop))) =
     [ExecCall (Service ''api'')
        \<lparr>SvcName = ''api'', Cmd = [''ls''], Mode = ''default'', Force = False,
         UID = 1000, WorkingDir = ''/app/bin''\<rparr>] \<and>
   calls (snd (CmdServiceExec env_example ''/h'' [''ls''] (world_with doc_plain))) =
     [ExecCall (Service ''web'')
        \<lparr>SvcName = ''web'', Cmd = [''ls''], Mode = ''default'', Force = False,
         UID = 1000, WorkingDir = []\<rparr>] \<and>
   CmdServiceExec env_example ''/h'' [''ls''] (world_with doc_bare) =
     (Inl (CollabError ''service not found''), world_with doc_bare)"
proof -
  have nh: "\<not> NeedHelp env_example [''ls''] ''[OPTIONS] COMMAND [ARGS]''"
    by (simp add: env_example_def)
  have svc: "flag_string [(''svc'', StringValue []), (''mode'', StringValue ''default''),
           (''force'', BoolValue False), (''uid'', IntValue 1000)] ''svc'' = []"
    by (simp add: flag_string_def)
  have m: "FindModuleByPath cfg_example = Inr \<lparr>HostedIn = ''api'', ExecPath = ''/app/bin''\<rparr> \<and>
      renderPath cfg_example (ExecPath \<lparr>HostedIn = ''api'', ExecPath = ''/app/bin''\<rparr>) = Inr ''/app/bin'' \<and>
      CreateFromSvcName env_example cfg_example (HostedIn \<lparr>HostedIn = ''api'', ExecPath = ''/app/bin''\<rparr>) =
        Inr (Service ''api'')"
    by (simp add: cfg_example_def env_example_def)
  have s: "FindModuleByPath cfg_plain = Inl (CollabError ''module not found'') \<and>
      FindServiceByPath cfg_plain = Inr ''web'' \<and>
      CreateFromSvcName env_example cfg_plain ''web'' = Inr (Service ''web'')"
    by (simp add: cfg_plain_def env_example_def)
  have n: "FindModuleByPath cfg_empty = Inl (CollabError ''module not found'') \<and>
      FindServiceByPath cfg_empty = Inl (CollabError ''service not found'')"
    by (simp add: cfg_empty_def)
  from exec_by_path_prefers_module [OF nh Parse_exec_plain svc getWorkspaceConfig_shop,
         of "\<lparr>HostedIn = ''api'', ExecPath = ''/app/bin''\<rparr>" "''/app/bin''" "Service ''api''"] m
       exec_by_path_prefers_module [OF nh Parse_exec_plain svc getWorkspaceConfig_plain,
         of _ _ _ "CollabError ''module not found''" "''web''" "Service ''web''"] s
       exec_by_path_prefers_module [OF nh Parse_exec_plain svc getWorkspaceConfig_bare,
         of _ _ _ "CollabError ''module not found''" _ _ "CollabError ''service not found''"] n
  show ?thesis
    by (simp add: flag_string_def flag_bool_def flag_int_def world_with_def)
qed

subsection \<open>\<^verbatim>\<open>stop\<close> and \<^verbatim>\<open>destroy\<close>\<close>

lemma Parse_stop_all:
  "Parse pint stopFlags [''--all''] = Inr ([(''all'', BoolValue True)], [])"
  by (simp add: stopFlags_def flag_store_def)

lemma Parse_stop_nil: "Parse pint stopFlags [] = Inr (stopFlags, [])"
  by simp

text \<open>
  The loop takes the names in order and stops at the first failure: the calls it makes are
  \<^verbatim>\<open>Stop\<close> on the handles of the first \<open>k\<close> names, and of all names if it succeeds.
\<close>

lemma CmdServiceStop_loop_calls:
  "\<exists>k \<le> length names.
     calls (snd (CmdServiceStop_loop env cfg names w)) =
       calls w @ map (\<lambda>n. StopCall (projr (CreateFromSvcName env cfg n))) (take k names) \<and>
     (fst (CmdServiceStop_loop env cfg names w) = None \<longrightarrow> k = length names)"
proof (induction names arbitrary: w)
  case Nil
  then show ?case by simp
next
  case (Cons n names)
  let ?h = "\<lambda>n. StopCall (projr (CreateFromSvcName env cfg n))"
  let ?run = "CmdServiceStop_loop env cfg (n # names) w"
  show ?case
  proof (cases "CreateFromSvcName env cfg n")
    case (Inl e)
    then have "0 \<le> length (n # names) \<and>
        calls (snd ?run) = calls w @ map ?h (take 0 (n # names)) \<and>
        (fst ?run = None \<longrightarrow> 0 = length (n # names))"
      by simp
    then show ?thesis by (rule exI [of _ 0])
  next
    case (Inr svc)
    let ?w' = "w\<lparr>calls := calls w @ [StopCall svc]\<rparr>"
    show ?thesis
    proof (cases "Stop env (calls w) svc")
      case (Some e)
      with Inr have "Suc 0 \<le> length (n # names) \<and>
          calls (snd ?run) = calls w @ map ?h (take (Suc 0) (n # names)) \<and>
          (fst ?run = None \<longrightarrow> Suc 0 = length (n # names))"
        by (simp add: svc_Stop_def)
      then show ?thesis by (rule exI [of _ "Suc 0"])
    next
      case None
      with Inr have step: "?run = CmdServiceStop_loop env cfg names ?w'"
        by (simp add: svc_Stop_def)
      from Cons.IH [of ?w'] obtain k where k: "k \<le> length names \<and>
        calls (snd (CmdServiceStop_loop env cfg names ?w')) = calls ?w' @ map ?h (take k names) \<and>
        (fst (CmdServiceStop_loop env cfg names ?w') = None \<longrightarrow> k = length names)" ..
      from k Inr have "Suc k \<le> length (n # names) \<and>
          calls (snd ?run) = calls w @ map ?h (take (Suc k) (n # names)) \<and>
          (fst ?run = None \<longrightarrow> Suc k = length (n # names))"
        unfolding step by simp
      then show ?thesis by (rule exI [of _ "Suc k"])
    qed
  qed
qed

text \<open>
  With names and without \<^verbatim>\<open>--all\<close> the loop runs over the arguments as given; with no
  argument at all the one target is the service found from the working directory.
\<close>

lemma CmdServiceStop_names:
  assumes "\<not> NeedHelp env args ''stop [NAMES...]''"
    and "getWorkspaceConfig env p w = (Inr cfg, w1)"
    and "Parse (ParseInt env) stopFlags args = Inr (fs, rest)"
    and "\<not> flag_bool fs ''all''"
    and "args \<noteq> []"
  shows "CmdServiceStop env p args w = CmdServiceStop_loop env cfg args w1"
  using assms by (simp add: CmdServiceStop_def del: Parse.simps)

lemma CmdServiceStop_no_args:
  assumes "\<not> NeedHelp env [] ''stop [NAMES...]''"
    and "getWorkspaceConfig env p w = (Inr cfg, w1)"
  shows "CmdServiceStop env p [] w =
     (case FindServiceByPath cfg of
        Inl err \<Rightarrow> (Some err, w1)
      | Inr svcName \<Rightarrow>
          (case CreateFromSvcName env cfg svcName of
             Inl err \<Rightarrow> (Some err, w1)
           | Inr svc \<Rightarrow> svc_Stop env svc w1))"
  using assms by (simp add: CmdServiceStop_def stopFlags_def flag_bool_def)

text \<open>
  With \<^verbatim>\<open>--all\<close> the loop runs over \<^verbatim>\<open>GetAllSvcNames\<close> when that list is not empty. When it
  is empty the command does not finish with nothing to do: it goes on as if no argument
  had been given and looks for the service of the working directory.
\<close>

lemma CmdServiceStop_all:
  assumes "\<not> NeedHelp env [''--all''] ''stop [NAMES...]''"
    and "getWorkspaceConfig env p w = (Inr cfg, w1)"
  shows "CmdServiceStop env p [''--all''] w =
     (if GetAllSvcNames cfg \<noteq> [] then CmdServiceStop_loop env cfg (GetAllSvcNames cfg) w1
      else
        (case FindServiceByPath cfg of
           Inl err \<Rightarrow> (Some err, w1)
         | Inr svcName \<Rightarrow>
             (case CreateFromSvcName env cfg svcName of
                Inl err \<Rightarrow> (Some err, w1)
              | Inr svc \<Rightarrow> svc_Stop env svc w1)))"
  using assms Parse_stop_all [of "ParseInt env"]
  by (simp add: CmdServiceStop_def flag_bool_def del: Parse.simps)

lemma CmdServiceDestroy_all:
  assumes "\<not> NeedHelp env [''--all''] ''destroy [NAMES...]''"
    and "getWorkspaceConfig env p w = (Inr cfg, w1)"
  shows "CmdServiceDestroy env p [''--all''] w =
     (if GetAllSvcNames cfg \<noteq> [] then CmdServiceDestroy_loop env cfg (GetAllSvcNames cfg) w1
      else
        (case FindServiceByPath cfg of
           Inl err \<Rightarrow> (Some err, w1)
         | Inr svcName \<Rightarrow>
             (case CreateFromSvcName env cfg svcName of
                Inl err \<Rightarrow> (Some err, w1)
              | Inr svc \<Rightarrow> svc_Destroy env svc w1)))"
  using assms Parse_stop_all [of "ParseInt env"]
  by (simp add: CmdServiceDestroy_def flag_bool_def del: Parse.simps)

text \<open>
  With \<^verbatim>\<open>--all\<close> on a manifest without services, whatever the collaborators return, the
  command never succeeds without a call.
\<close>

lemma CmdServiceStop_all_empty_not_noop:
  assumes "\<not> NeedHelp env [''--all''] ''stop [NAMES...]''"
    and "getWorkspaceConfig env p w = (Inr cfg, w1)"
    and "GetAllSvcNames cfg = []"
  shows "fst (CmdServiceStop env p [''--all''] w) \<noteq> None \<or>
         calls (snd (CmdServiceStop env p [''--all''] w)) \<noteq> calls w1"
  using assms
  by (auto simp: CmdServiceStop_all svc_Stop_def split: sum.splits)

text \<open>
  The names are taken from the raw arguments, not from what \<^verbatim>\<open>fs.Args()\<close> returns after
  the flags: in \<^verbatim>\<open>stop -- web\<close> the first target is \<^verbatim>\<open>--\<close>, for which there is no service.
\<close>

lemma CmdServiceStop_double_dash:
  "CmdServiceStop env_example ''/h'' [''--'', ''web''] (world_with doc_shop) =
     (Some (CollabError ''service not found''), world_with doc_shop)"
proof -
  have nh: "\<not> NeedHelp env_example [''--'', ''web''] ''stop [NAMES...]''"
    by (simp add: env_example_def)
  have pr: "Parse (ParseInt env_example) stopFlags [''--'', ''web''] = Inr (stopFlags, [''web''])"
    by simp
  have "CmdServiceStop env_example ''/h'' [''--'', ''web''] (world_with doc_shop) =
      CmdServiceStop_loop env_example cfg_example [''--'', ''web''] (world_with doc_shop)"
    by (rule CmdServiceStop_names [OF nh getWorkspaceConfig_shop pr])
       (simp_all add: stopFlags_def flag_bool_def)
  then show ?thesis
    by (simp add: env_example_def cfg_example_def)
qed

text \<open>
  Claim C3, at \<^verbatim>\<open>stop --all\<close> and \<^verbatim>\<open>destroy --all\<close> in a workspace whose manifest declares
  no service: the list of all service names is empty, and instead of finishing with
  nothing to do each command looks for the service of the working directory and returns
  the error of that search.
\<close>

theorem stop_all_without_services_resolves_by_path:
  "GetAllSvcNames cfg_empty = [] \<and>
   getWorkspaceConfig env_example ''/h'' (world_with doc_bare) = (Inr cfg_empty, world_with doc_bare) \<and>
   CmdServiceStop env_example ''/h'' [''--all''] (world_with doc_bare) =
     (Some (CollabError ''service not found''), world_with doc_bare) \<and>
   CmdServiceDestroy env_example ''/h'' [''--all''] (world_with doc_bare) =
     (Some (CollabError ''service not found''), world_with doc_bare)"
proof -
  have nh: "\<not> NeedHelp env_example [''--all''] ''stop [NAMES...]''"
    and nh': "\<not> NeedHelp env_example [''--all''] ''destroy [NAMES...]''"
    by (simp_all add: env_example_def)
  have e: "GetAllSvcNames cfg_empty = []"
    and f: "FindServiceByPath cfg_empty = Inl (CollabError ''service not found'')"
    by (simp_all add: cfg_empty_def)
  from e f have "CmdServiceStop env_example ''/h'' [''--all''] (world_with doc_bare) =
     (Some (CollabError ''service not found''), world_with doc_bare)"
    by (simp add: CmdServiceStop_all [OF nh getWorkspaceConfig_bare])
  moreover from e f have "CmdServiceDestroy env_example ''/h'' [''--all''] (world_with doc_bare) =
     (Some (CollabError ''service not found''), world_with doc_bare)"
    by (simp add: CmdServiceDestroy_all [OF nh' getWorkspaceConfig_bare])
  ultimately show ?thesis
    using e getWorkspaceConfig_bare by (intro conjI)
qed

section \<open>Properties of the dependency planner\<close>

lemma dep_edge_iff:
  "dep_edge M mode force isRunning a b \<longleftrightarrow>
     (\<exists>sd d. map_of M a = Some sd \<and> d \<in> set (dependsOn sd) \<and> depName d = b \<and>
             depMode d = mode \<and> (force \<or> \<not> isRunning b))"
  by (cases "map_of M a") (auto simp: dep_edge_def dep_succs_def)

text \<open>A successful pass over a list of dependencies has visited each one it does not skip.\<close>

lemma plan_deps_Inr_visit:
  "plan_deps M mode force isRunning path ds = Inr p \<Longrightarrow> d \<in> set ds \<Longrightarrow>
   depMode d = mode \<Longrightarrow> force \<or> \<not> isRunning (depName d) \<Longrightarrow>
     \<exists>p'. plan_visit M mode force isRunning path (depName d) = Inr p'"
proof (induction ds arbitrary: p)
  case Nil
  then show ?case by simp
next
  case (Cons a ds)
  show ?case
  proof (cases "depMode a = mode \<and> (force \<or> \<not> isRunning (depName a))")
    case False
    then have "plan_deps M mode force isRunning path (a # ds) =
        plan_deps M mode force isRunning path ds"
      by auto
    with Cons.prems(1) have "plan_deps M mode force isRunning path ds = Inr p" by simp
    moreover from False Cons.prems(2,3,4) have "d \<in> set ds" by auto
    ultimately show ?thesis using Cons.IH Cons.prems(3,4) by blast
  next
    case True
    with Cons.prems(1) obtain p1 p2 where
      v: "plan_visit M mode force isRunning path (depName a) = Inr p1" and
      r: "plan_deps M mode force isRunning path ds = Inr p2"
      by (auto split: sum.splits)
    show ?thesis
    proof (cases "d = a")
      case True
      with v show ?thesis by blast
    next
      case False
      with Cons.prems(2) have "d \<in> set ds" by simp
      with Cons.IH r Cons.prems(3,4) show ?thesis by blast
    qed
  qed
qed

text \<open>
  A successful visit was of a service off the path, and it has visited, with that service
  put on the path, every service an edge leads to.
\<close>

lemma plan_visit_Inr_step:
  assumes "plan_visit M mode force isRunning path n = Inr p"
  shows "n \<notin> set path"
    and "dep_edge M mode force isRunning n m \<Longrightarrow>
           \<exists>p'. plan_visit M mode force isRunning (n # path) m = Inr p'"
proof -
  from assms show off: "n \<notin> set path"
    by (auto simp: plan_visit.simps [of M mode force isRunning path n] split: if_splits)
  assume "dep_edge M mode force isRunning n m"
  then obtain sd d where sd: "map_of M n = Some sd" and d: "d \<in> set (dependsOn sd)"
    "depName d = m" "depMode d = mode" "force \<or> \<not> isRunning m"
    by (auto simp: dep_edge_iff)
  from assms off sd obtain p0 where
    "plan_deps M mode force isRunning (n # path) (dependsOn sd) = Inr p0"
    by (auto simp: plan_visit.simps [of M mode force isRunning path n] split: sum.splits)
  from plan_deps_Inr_visit [OF this d(1,3)] d(2,4)
  show "\<exists>p'. plan_visit M mode force isRunning (n # path) m = Inr p'" by simp
qed

lemma plan_visit_Inr_reach:
  assumes "(dep_edge M mode force isRunning)\<^sup>*\<^sup>* n m"
    and "plan_visit M mode force isRunning path n = Inr p"
  shows "\<exists>path' p'. set path \<subseteq> set path' \<and> plan_visit M mode force isRunning path' m = Inr p'"
  using assms
proof (induction rule: rtranclp_induct)
  case base
  then show ?case by blast
next
  case (step y z)
  then obtain path' p' where h: "set path \<subseteq> set path'"
    "plan_visit M mode force isRunning path' y = Inr p'"
    by blast
  from plan_visit_Inr_step(2) [OF h(2) step.hyps(2)] obtain p'' where
    "plan_visit M mode force isRunning (y # path') z = Inr p''" ..
  moreover from h(1) have "set path \<subseteq> set (y # path')" by auto
  ultimately show ?case by blast
qed

text \<open>No visit of a service that lies on a cycle of followed edges succeeds.\<close>

lemma plan_visit_cycle_fails:
  assumes "(dep_edge M mode force isRunning)\<^sup>+\<^sup>+ x x"
  shows "plan_visit M mode force isRunning path x \<noteq> Inr p"
proof
  assume ok: "plan_visit M mode force isRunning path x = Inr p"
  from assms obtain y where xy: "dep_edge M mode force isRunning x y"
    and yx: "(dep_edge M mode force isRunning)\<^sup>*\<^sup>* y x"
    by (auto dest: tranclpD)
  from plan_visit_Inr_step(2) [OF ok xy] obtain p1 where
    "plan_visit M mode force isRunning (x # path) y = Inr p1" ..
  from plan_visit_Inr_reach [OF yx this] obtain path' p' where
    "set (x # path) \<subseteq> set path'" "plan_visit M mode force isRunning path' x = Inr p'"
    by blast
  with plan_visit_Inr_step(1) [of M mode force isRunning path' x p'] show False by auto
qed

lemma plan_fails_on_reachable_cycle:
  assumes "(dep_edge M mode force isRunning)\<^sup>*\<^sup>* target x"
    and "(dep_edge M mode force isRunning)\<^sup>+\<^sup>+ x x"
  shows "plan M mode force isRunning target \<noteq> Inr p"
proof
  assume "plan M mode force isRunning target = Inr p"
  then have "plan_visit M mode force isRunning [] target = Inr p" by (simp add: plan_def)
  from plan_visit_Inr_reach [OF assms(1) this] obtain path' p' where
    "plan_visit M mode force isRunning path' x = Inr p'" by blast
  with plan_visit_cycle_fails [OF assms(2)] show False by blast
qed

lemma dep_edge_declared:
  "dep_edge M mode force isRunning a b \<Longrightarrow> a \<in> fst ` set M"
  by (auto simp: dep_edge_iff dest: map_of_SomeD intro: rev_image_eqI)

text \<open>In a manifest whose dependencies all name declared services, no visit meets an unknown name.\<close>

lemma plan_no_NotFoundError:
  shows "wf_manifest M \<Longrightarrow> n \<in> fst ` set M \<Longrightarrow>
           plan_visit M mode force isRunning path n \<noteq> Inl (NotFoundError x)"
    and "wf_manifest M \<Longrightarrow> \<forall>d \<in> set ds. depName d \<in> fst ` set M \<Longrightarrow>
           plan_deps M mode force isRunning path ds \<noteq> Inl (NotFoundError x)"
proof (induction M mode force isRunning path n and M mode force isRunning path ds
    rule: plan_visit_plan_deps.induct)
  case (1 M mode force isRunning path n)
  show ?case
  proof (cases "n \<in> set path")
    case True
    then show ?thesis
      by (simp add: plan_visit.simps [of M mode force isRunning path n])
  next
    case False
    from "1.prems"(2) obtain sd where sd: "map_of M n = Some sd"
      by (metis map_of_eq_None_iff not_Some_eq)
    then have "(n, sd) \<in> set M" by (rule map_of_SomeD)
    with "1.prems"(1) have "\<forall>d \<in> set (dependsOn sd). depName d \<in> fst ` set M"
      by (auto simp: wf_manifest_def)
    from "1.IH" [OF False sd "1.prems"(1) this]
    have "plan_deps M mode force isRunning (n # path) (dependsOn sd) \<noteq> Inl (NotFoundError x)" .
    with False sd show ?thesis
      by (auto simp: plan_visit.simps [of M mode force isRunning path n] split: sum.splits)
  qed
next
  case (2 M mode force isRunning path)
  then show ?case by simp
next
  case (3 M mode force isRunning path d ds)
  from "3.prems"(2) have rest: "\<forall>d \<in> set ds. depName d \<in> fst ` set M"
    and this_one: "depName d \<in> fst ` set M"
    by simp_all
  show ?case
  proof (cases "depMode d \<noteq> mode")
    case True
    with "3.IH"(1) [OF True "3.prems"(1) rest] show ?thesis by simp
  next
    case same: False
    show ?thesis
    proof (cases "\<not> force \<and> isRunning (depName d)")
      case True
      with same "3.IH"(2) [OF same True "3.prems"(1) rest] show ?thesis by simp
    next
      case False
      note v = "3.IH"(3) [OF same False "3.prems"(1) this_one]
      show ?thesis
      proof (cases "plan_visit M mode force isRunning path (depName d)")
        case (Inl e)
        with v same False show ?thesis by auto
      next
        case (Inr p1)
        from "3.IH"(4) [OF same False Inr "3.prems"(1) rest] same False Inr
        show ?thesis by (auto split: sum.splits)
      qed
    qed
  qed
qed

text \<open>The list that names a cycle is a cycle of the followed edges.\<close>

lemma cycle_of_is_cycle:
  assumes "successively (\<lambda>a b. E b a) (n # path)" and "n \<in> set path"
  shows "is_cycle E (cycle_of path n)"
proof -
  let ?pre = "takeWhile (\<lambda>x. x \<noteq> n) path"
  from assms(2) obtain ys rest where ys: "path = ys @ n # rest" "n \<notin> set ys"
    by (auto dest: split_list_first)
  from ys(2) have "takeWhile (\<lambda>x. x \<noteq> n) (ys @ n # rest) = ys"
    by (induction ys) auto
  with ys(1) have path: "path = ?pre @ n # rest" by simp
  have "n # path = (n # ?pre @ [n]) @ rest"
    by (subst path) simp
  with assms(1) have "successively (\<lambda>a b. E b a) ((n # ?pre @ [n]) @ rest)" by simp
  then have "successively (\<lambda>a b. E b a) (n # ?pre @ [n])"
    by (simp only: successively_append_iff)
  then have "successively E (rev (n # ?pre @ [n]))"
    by (simp only: successively_rev)
  moreover have "rev (n # ?pre @ [n]) = cycle_of path n"
    by (simp add: cycle_of_def)
  ultimately have "successively E (cycle_of path n)" by simp
  then show ?thesis
    by (simp add: is_cycle_def cycle_of_def)
qed

text \<open>
  When the path is a chain of followed edges that ends in the visited service, a cycle error
  names a cycle of followed edges.
\<close>

lemma plan_names_a_cycle:
  shows "successively (\<lambda>a b. dep_edge M mode force isRunning b a) (n # path) \<Longrightarrow>
         plan_visit M mode force isRunning path n = Inl (CyclicDependencyError c) \<Longrightarrow>
           is_cycle (dep_edge M mode force isRunning) c"
    and "successively (\<lambda>a b. dep_edge M mode force isRunning b a) path \<Longrightarrow> path \<noteq> [] \<Longrightarrow>
         \<forall>d \<in> set ds. depMode d = mode \<and> (force \<or> \<not> isRunning (depName d)) \<longrightarrow>
            dep_edge M mode force isRunning (hd path) (depName d) \<Longrightarrow>
         plan_deps M mode force isRunning path ds = Inl (CyclicDependencyError c) \<Longrightarrow>
           is_cycle (dep_edge M mode force isRunning) c"
proof (induction M mode force isRunning path n and M mode force isRunning path ds
    rule: plan_visit_plan_deps.induct)
  case (1 M mode force isRunning path n)
  show ?case
  proof (cases "n \<in> set path")
    case True
    with "1.prems"(2) have "c = cycle_of path n"
      by (simp add: plan_visit.simps [of M mode force isRunning path n])
    with cycle_of_is_cycle [OF "1.prems"(1) True] show ?thesis by simp
  next
    case False
    with "1.prems"(2) obtain sd where sd: "map_of M n = Some sd"
      and ds: "plan_deps M mode force isRunning (n # path) (dependsOn sd) =
                 Inl (CyclicDependencyError c)"
      by (auto simp: plan_visit.simps [of M mode force isRunning path n]
          split: option.splits sum.splits)
    from sd have "\<forall>d \<in> set (dependsOn sd).
        depMode d = mode \<and> (force \<or> \<not> isRunning (depName d)) \<longrightarrow>
          dep_edge M mode force isRunning (hd (n # path)) (depName d)"
      by (auto simp: dep_edge_iff)
    from "1.IH" [OF False sd "1.prems"(1) _ this ds] show ?thesis by simp
  qed
next
  case (2 M mode force isRunning path)
  then show ?case by simp
next
  case (3 M mode force isRunning path d ds)
  from "3.prems"(3) have rest: "\<forall>d \<in> set ds.
      depMode d = mode \<and> (force \<or> \<not> isRunning (depName d)) \<longrightarrow>
        dep_edge M mode force isRunning (hd path) (depName d)"
    by simp
  show ?case
  proof (cases "depMode d \<noteq> mode")
    case True
    with "3.prems"(4) have "plan_deps M mode force isRunning path ds = Inl (CyclicDependencyError c)"
      by simp
    from "3.IH"(1) [OF True "3.prems"(1,2) rest this] show ?thesis .
  next
    case same: False
    show ?thesis
    proof (cases "\<not> force \<and> isRunning (depName d)")
      case True
      with same "3.prems"(4)
      have "plan_deps M mode force isRunning path ds = Inl (CyclicDependencyError c)"
        by simp
      from "3.IH"(2) [OF same True "3.prems"(1,2) rest this] show ?thesis .
    next
      case False
      with same "3.prems"(3) have edge: "dep_edge M mode force isRunning (hd path) (depName d)"
        by auto
      from "3.prems"(2) obtain h t where path: "path = h # t" by (cases path) auto
      with edge "3.prems"(1)
      have chain: "successively (\<lambda>a b. dep_edge M mode force isRunning b a) (depName d # path)"
        by simp
      show ?thesis
      proof (cases "plan_visit M mode force isRunning path (depName d)")
        case (Inl e)
        with same False "3.prems"(4) have "e = CyclicDependencyError c" by auto
        with Inl "3.IH"(3) [OF same False chain] show ?thesis by simp
      next
        case (Inr p1)
        with same False "3.prems"(4)
        have "plan_deps M mode force isRunning path ds = Inl (CyclicDependencyError c)"
          by (auto split: sum.splits)
        from "3.IH"(4) [OF same False Inr "3.prems"(1,2) rest this] show ?thesis .
      qed
    qed
  qed
qed

text \<open>
  Claim C8, amended. The planner is a total function: the traversal ends on every manifest.
  On a manifest whose dependencies all name declared services, if a cycle can be reached
  from the target along the edges the traversal follows (those of the requested mode whose
  end is not skipped as running), the plan fails with a \<open>CyclicDependencyError\<close> that names a
  cycle of such edges; no plan is returned.
\<close>

theorem plan_fails_with_cycle_error:
  assumes "wf_manifest M"
    and "(dep_edge M mode force isRunning)\<^sup>*\<^sup>* target x"
    and "(dep_edge M mode force isRunning)\<^sup>+\<^sup>+ x x"
  shows "\<exists>c. plan M mode force isRunning target = Inl (CyclicDependencyError c) \<and>
             is_cycle (dep_edge M mode force isRunning) c"
proof -
  have declared: "target \<in> fst ` set M"
  proof (cases "target = x")
    case True
    from assms(3) obtain y where "dep_edge M mode force isRunning x y"
      by (auto dest: tranclpD)
    with True show ?thesis by (auto dest: dep_edge_declared)
  next
    case False
    with assms(2) obtain y where "dep_edge M mode force isRunning target y"
      by (auto elim: converse_rtranclpE)
    then show ?thesis by (rule dep_edge_declared)
  qed
  obtain e where e: "plan M mode force isRunning target = Inl e"
    using plan_fails_on_reachable_cycle [OF assms(2,3)]
    by (cases "plan M mode force isRunning target") auto
  from plan_no_NotFoundError(1) [OF assms(1) declared, of mode force isRunning "[]"] e
  obtain c where c: "e = CyclicDependencyError c"
    by (cases e) (auto simp: plan_def)
  from e c have "plan_visit M mode force isRunning [] target = Inl (CyclicDependencyError c)"
    by (simp add: plan_def)
  from plan_names_a_cycle(1) [OF _ this] have "is_cycle (dep_edge M mode force isRunning) c"
    by simp
  with e c show ?thesis by simp
qed

theorem plan_fails_with_cycle_error_witness:
  "wf_manifest M_cycle2 \<and> wf_manifest M_cycle3 \<and>
   plan M_cycle2 ''default'' False none_running ''a'' =
     Inl (CyclicDependencyError [''a'', ''b'', ''a'']) \<and>
   plan M_cycle3 ''default'' False none_running ''a'' =
     Inl (CyclicDependencyError [''a'', ''b'', ''c'', ''a''])"
proof -
  have wf2: "wf_manifest M_cycle2" and wf3: "wf_manifest M_cycle3"
    by (simp_all add: wf_manifest_def M_cycle2_def M_cycle3_def)
  have e2: "dep_edge M_cycle2 ''default'' False none_running ''a'' ''b''"
    "dep_edge M_cycle2 ''default'' False none_running ''b'' ''a''"
    by (simp_all add: dep_edge_def dep_succs_def M_cycle2_def none_running_def)
  have e3: "dep_edge M_cycle3 ''default'' False none_running ''a'' ''b''"
    "dep_edge M_cycle3 ''default'' False none_running ''b'' ''c''"
    "dep_edge M_cycle3 ''default'' False none_running ''c'' ''a''"
    by (simp_all add: dep_edge_def dep_succs_def M_cycle3_def none_running_def)
  have r2: "(dep_edge M_cycle2 ''default'' False none_running)\<^sup>*\<^sup>* ''a'' ''a''"
    and r3: "(dep_edge M_cycle3 ''default'' False none_running)\<^sup>*\<^sup>* ''a'' ''a''"
    by simp_all
  from e2 have c2: "(dep_edge M_cycle2 ''default'' False none_running)\<^sup>+\<^sup>+ ''a'' ''a''"
    by (blast intro: tranclp.intros)
  from e3 have c3: "(dep_edge M_cycle3 ''default'' False none_running)\<^sup>+\<^sup>+ ''a'' ''a''"
    by (blast intro: tranclp.intros)
  have p2: "plan M_cycle2 ''default'' False none_running ''a'' =
     Inl (CyclicDependencyError [''a'', ''b'', ''a''])"
    by (simp add: plan_def plan_visit.simps cycle_of_def M_cycle2_def none_running_def)
  have p3: "plan M_cycle3 ''default'' False none_running ''a'' =
     Inl (CyclicDependencyError [''a'', ''b'', ''c'', ''a''])"
    by (simp add: plan_def plan_visit.simps cycle_of_def M_cycle3_def none_running_def)
  from plan_fails_with_cycle_error [OF wf2 r2 c2] plan_fails_with_cycle_error [OF wf3 r3 c3]
    wf2 wf3 p2 p3
  show ?thesis by simp
qed

text \<open>
  Claim C8 as stated fails on the manifest in which \<^verbatim>\<open>a\<close> and \<^verbatim>\<open>b\<close> depend on each other
  under the mode \<^verbatim>\<open>default\<close>, a cycle of the dependency graph that contains the target
  \<^verbatim>\<open>a\<close>: when \<^verbatim>\<open>b\<close> is reported running and \<open>force\<close> is not set, the dependency on \<^verbatim>\<open>b\<close> is
  skipped and the plan for \<^verbatim>\<open>a\<close> is returned; so it is when the requested mode is another one
  than that of the edges.
\<close>

theorem plan_cycle_not_reported_counterexample:
  "wf_manifest M_cycle2 \<and>
   raw_edge M_cycle2 ''a'' ''b'' \<and> raw_edge M_cycle2 ''b'' ''a'' \<and>
   plan M_cycle2 ''default'' False b_running ''a'' = Inr [(''a'', Up)] \<and>
   plan M_cycle2 ''hook'' True none_running ''a'' = Inr [(''a'', Up)]"
  by (simp add: wf_manifest_def raw_edge_def plan_def plan_visit.simps M_cycle2_def
      b_running_def none_running_def)

end
